theory Spec2Isabelle
  imports Main "HOL-Library.Sublist"
begin

section \<open>JavaScript numbers and rounding\<close>

text \<open>
  The code computes with JavaScript numbers. Wherever a value can be \<open>NaN\<close> (the time value
  of an Invalid Date, the result of \<open>parseInt\<close> on a string without digits) it is modelled
  as \<open>int option\<close>, \<open>None\<close> standing for \<open>NaN\<close>; comparisons with \<open>NaN\<close> are false and
  \<open>NaN === NaN\<close> is false, as in the language.
\<close>

type_synonym jsnum = "int option"

definition js_lt :: "jsnum \<Rightarrow> jsnum \<Rightarrow> bool" where
  "js_lt a b = (case (a, b) of (Some x, Some y) \<Rightarrow> x < y | _ \<Rightarrow> False)"

definition js_gt :: "jsnum \<Rightarrow> jsnum \<Rightarrow> bool" where
  "js_gt a b = (case (a, b) of (Some x, Some y) \<Rightarrow> x > y | _ \<Rightarrow> False)"

definition js_seq :: "jsnum \<Rightarrow> jsnum \<Rightarrow> bool" where
  "js_seq a b = (case (a, b) of (Some x, Some y) \<Rightarrow> x = y | _ \<Rightarrow> False)"

definition js_add :: "jsnum \<Rightarrow> int \<Rightarrow> jsnum" where
  "js_add a k = map_option (\<lambda>x. x + k) a"

text \<open>
  \<open>Math.round(n / k)\<close> for an integer \<open>n\<close> and a positive integer \<open>k\<close>: the nearest
  integer, a tie going up (\<open>Math.round(-0.5)\<close> is \<open>-0\<close>, which \<open>!== 0\<close> treats as zero).
\<close>

definition Math_round_div :: "int \<Rightarrow> int \<Rightarrow> int" where
  "Math_round_div n k = (2 * n + k) div (2 * k)"

section \<open>Strings\<close>

text \<open>\<open>String.prototype.split\<close> with a one-character separator: the pieces between the
  separators, empty pieces kept, so that the empty string splits into one empty piece.\<close>

fun split_on :: "char \<Rightarrow> string \<Rightarrow> string list" where
  "split_on sep [] = [[]]"
| "split_on sep (c # cs) =
     (if c = sep then [] # split_on sep cs
      else (case split_on sep cs of
              [] \<Rightarrow> [[c]]
            | piece # pieces \<Rightarrow> (c # piece) # pieces))"

text \<open>\<open>s.padStart(2, '0')\<close>.\<close>

definition padStart2 :: "string \<Rightarrow> string" where
  "padStart2 s = replicate (2 - length s) CHR ''0'' @ s"

definition isDigit :: "char \<Rightarrow> bool" where
  "isDigit c \<longleftrightarrow> c \<in> set ''0123456789''"

definition digitVal :: "char \<Rightarrow> int" where
  "digitVal c = int (of_char c) - 48"

definition hexVal :: "char \<Rightarrow> int option" where
  "hexVal c =
     (if isDigit c then Some (digitVal c)
      else if c \<in> set ''abcdef'' then Some (int (of_char c) - 87)
      else if c \<in> set ''ABCDEF'' then Some (int (of_char c) - 55)
      else None)"

definition decVal :: "char \<Rightarrow> int option" where
  "decVal c = (if isDigit c then Some (digitVal c) else None)"

text \<open>White space that \<open>parseInt\<close> skips: tab, line feed, vertical tab, form feed, carriage
  return and space (the characters of this model are bytes).\<close>

definition isWhiteSpace :: "char \<Rightarrow> bool" where
  "isWhiteSpace c \<longleftrightarrow> of_char c \<in> {9::nat, 10, 11, 12, 13, 32}"

definition parseDigits :: "int \<Rightarrow> (char \<Rightarrow> int option) \<Rightarrow> string \<Rightarrow> jsnum" where
  "parseDigits radix val s =
     (let ds = takeWhile (\<lambda>c. val c \<noteq> None) s
      in if ds = [] then None
         else Some (foldl (\<lambda>acc c. acc * radix + (case val c of Some v \<Rightarrow> v | None \<Rightarrow> 0)) 0 ds))"

text \<open>
  \<open>parseInt(s)\<close> without a radix: leading white space and one sign are skipped, a prefix
  \<open>0x\<close> or \<open>0X\<close> selects radix 16, and the longest run of digits is read; no digit gives
  \<open>NaN\<close>. The model computes the exact integer (a double loses digits beyond \<open>2^53\<close>).
\<close>

definition parseUnsigned :: "string \<Rightarrow> jsnum" where
  "parseUnsigned s =
     (case s of
        c0 # c1 # rest \<Rightarrow>
          if c0 = CHR ''0'' \<and> (c1 = CHR ''x'' \<or> c1 = CHR ''X'') then parseDigits 16 hexVal rest
          else parseDigits 10 decVal s
      | _ \<Rightarrow> parseDigits 10 decVal s)"

definition parseInt :: "string \<Rightarrow> jsnum" where
  "parseInt s =
     (case dropWhile isWhiteSpace s of
        [] \<Rightarrow> None
      | c # cs \<Rightarrow>
          if c = CHR ''-'' then map_option uminus (parseUnsigned cs)
          else if c = CHR ''+'' then parseUnsigned cs
          else parseUnsigned (c # cs))"

text \<open>Decimal rendering of a number, as \<open>String(n)\<close> and template literals do it.\<close>

definition digitChar :: "nat \<Rightarrow> char" where
  "digitChar k = ''0123456789'' ! k"

fun decNat :: "nat \<Rightarrow> string" where
  "decNat n = (if n < 10 then [digitChar n] else decNat (n div 10) @ [digitChar (n mod 10)])"

declare decNat.simps [simp del]

definition numToString :: "jsnum \<Rightarrow> string" where
  "numToString x =
     (case x of
        None \<Rightarrow> ''NaN''
      | Some n \<Rightarrow> if n < 0 then CHR ''-'' # decNat (nat (- n)) else decNat (nat n))"

text \<open>The characters that the decimal rendering of a number can have.\<close>

definition numericChar :: "char \<Rightarrow> bool" where
  "numericChar c \<longleftrightarrow> isDigit c \<or> c = CHR ''-''"

section \<open>Civil dates\<close>

text \<open>
  A civil date is (year, month, day), month 1 to 12. \<open>days_from_civil\<close> is the number of
  days from 1970-01-01 in the proleptic Gregorian calendar, \<open>civil_from_days\<close> its inverse:
  what \<open>Date\<close> computes between a time value and its year, month and day.
\<close>

type_synonym civil = "int \<times> int \<times> int"

definition days_from_civil :: "civil \<Rightarrow> int" where
  "days_from_civil ymd =
     (case ymd of (y0, m, d) \<Rightarrow>
        let y = (if m \<le> 2 then y0 - 1 else y0);
            era = y div 400;
            yoe = y - era * 400;
            doy = (153 * (if m > 2 then m - 3 else m + 9) + 2) div 5 + d - 1;
            doe = yoe * 365 + yoe div 4 - yoe div 100 + doy
        in era * 146097 + doe - 719468)"

definition civil_from_days :: "int \<Rightarrow> civil" where
  "civil_from_days n =
     (let z = n + 719468;
          era = z div 146097;
          doe = z - era * 146097;
          yoe = (doe - doe div 1460 + doe div 36524 - doe div 146096) div 365;
          doy = doe - (365 * yoe + yoe div 4 - yoe div 100);
          mp = (5 * doy + 2) div 153;
          d = doy - (153 * mp + 2) div 5 + 1;
          m = (if mp < 10 then mp + 3 else mp - 9)
      in (yoe + era * 400 + (if m \<le> 2 then 1 else 0), m, d))"

text \<open>Day of the week of a day number, 0 = Sunday; 1970-01-01 was a Thursday.\<close>

definition weekday :: "int \<Rightarrow> int" where
  "weekday n = (n + 4) mod 7"

definition msPerDay :: int where
  "msPerDay = 86400000"

section \<open>The daylight rule in force since 2007\<close>

text \<open>
  The time zone database is the host's and is a parameter of the model (see the
  environment below). The examples run on a host that follows the rule which the comment
  above \<open>getPacificTimeInfo\<close> states: daylight time (UTC-7) from the 2nd Sunday in March to
  the 1st Sunday in November, standard time (UTC-8) otherwise, the clock changing at 2 AM
  local time, that is at 10:00 UTC in March and at 09:00 UTC in November. This is the rule
  of America/Los_Angeles for the years from 2007 on; the examples are in 2026.
\<close>

definition sundayOnOrAfter :: "civil \<Rightarrow> int" where
  "sundayOnOrAfter ymd = (let n = days_from_civil ymd in n + (7 - weekday n) mod 7)"

definition pdtStart :: "int \<Rightarrow> int" where
  "pdtStart y = sundayOnOrAfter (y, 3, 8) * msPerDay + 10 * 3600000"

definition pdtEnd :: "int \<Rightarrow> int" where
  "pdtEnd y = sundayOnOrAfter (y, 11, 1) * msPerDay + 9 * 3600000"

definition ruleIsPDT :: "int \<Rightarrow> bool" where
  "ruleIsPDT t = (let y = fst (civil_from_days (t div msPerDay)) in pdtStart y \<le> t \<and> t < pdtEnd y)"

definition ruleOffsetMs :: "int \<Rightarrow> int" where
  "ruleOffsetMs t = (if ruleIsPDT t then - 7 * 3600000 else - 8 * 3600000)"

text \<open>Upper case of the letters a to z, for the example host; the station codes are ASCII.\<close>

definition asciiUpperCase :: "string \<Rightarrow> string" where
  "asciiUpperCase s =
     map (\<lambda>c. if c \<in> set ''abcdefghijklmnopqrstuvwxyz'' then char_of (of_char c - (32::nat)) else c) s"

section \<open>Real-time feed: \<open>src/lib/gtfs-realtime.ts\<close>\<close>

record StopTimeEvent =
  delay :: int
  time :: int

record StopTimeUpdate =
  stopId :: string
  stopSequence :: int
  arrival :: "StopTimeEvent option"
  departure :: "StopTimeEvent option"
  scheduleRelationship :: "string option"

record TripUpdate =
  tripId :: string
  routeId :: string
  startDate :: string
  startTime :: string
  stopTimeUpdates :: "StopTimeUpdate list"

datatype DelayStatus = OnTime | Delayed | Cancelled

text \<open>The object \<open>{ delay, status }\<close> that \<open>getStopDelay\<close> and \<open>getTripDelay\<close> return.\<close>

record DelayInfo =
  info_delay :: int
  info_status :: DelayStatus

text \<open>\<open>stop.departure?.delay || stop.arrival?.delay || 0\<close>: a missing or zero departure
  delay falls through to the arrival delay, a missing or zero arrival delay to 0.\<close>

definition stopDelay :: "StopTimeUpdate \<Rightarrow> int" where
  "stopDelay stop =
     (let arr = (case arrival stop of None \<Rightarrow> 0 | Some e \<Rightarrow> delay e)
      in case departure stop of
           None \<Rightarrow> arr
         | Some e \<Rightarrow> if delay e \<noteq> 0 then delay e else arr)"

definition isSkipped :: "StopTimeUpdate \<Rightarrow> bool" where
  "isSkipped stop \<longleftrightarrow>
     scheduleRelationship stop = Some ''SKIPPED'' \<or> scheduleRelationship stop = Some ''CANCELED''"

text \<open>The loop of \<open>calculateTripDelay\<close> over the stop-time updates; the state is
  \<open>maxDelaySeconds\<close>, the result adds \<open>isCancelled\<close>. The \<open>break\<close> leaves the loop at the
  first skipped or cancelled stop.\<close>

fun delayLoop :: "StopTimeUpdate list \<Rightarrow> int \<Rightarrow> int \<times> bool" where
  "delayLoop [] maxDelaySeconds = (maxDelaySeconds, False)"
| "delayLoop (stop # rest) maxDelaySeconds =
     (if isSkipped stop then (maxDelaySeconds, True)
      else delayLoop rest
             (if \<bar>stopDelay stop\<bar> > \<bar>maxDelaySeconds\<bar> then stopDelay stop
              else maxDelaySeconds))"

definition calculateTripDelay :: "TripUpdate \<Rightarrow> DelayInfo option" where
  "calculateTripDelay update =
     (if stopTimeUpdates update = [] then None
      else
        let (maxDelaySeconds, isCancelled) = delayLoop (stopTimeUpdates update) 0;
            delayMinutes = Math_round_div maxDelaySeconds 60;
            status = (if isCancelled then Cancelled
                      else if \<bar>delayMinutes\<bar> \<ge> 1 then Delayed
                      else OnTime)
        in Some \<lparr>info_delay = delayMinutes, info_status = status\<rparr>)"

text \<open>\<open>getTripDelay\<close>: the first update with the exact trip id decides, also when it has no
  stop-time updates (the result is then \<open>null\<close>); the train number, when given and not empty,
  is tried only when no update has the exact id.\<close>

definition getTripDelay :: "TripUpdate list \<Rightarrow> string \<Rightarrow> string option \<Rightarrow> DelayInfo option" where
  "getTripDelay updates tid trainNumber =
     (case find (\<lambda>update. tripId update = tid) updates of
        Some update \<Rightarrow> calculateTripDelay update
      | None \<Rightarrow>
          (case trainNumber of
             None \<Rightarrow> None
           | Some tn \<Rightarrow>
               if tn = [] then None
               else (case find (\<lambda>update. tripId update = tn \<or> suffix (''-'' @ tn) (tripId update))
                            updates of
                       Some update \<Rightarrow> calculateTripDelay update
                     | None \<Rightarrow> None)))"

section \<open>Static schedule: the GTFS tables and the cache\<close>

record GTFSStopTime =
  trip_id :: string
  arrival_time :: string
  departure_time :: string
  stop_id :: string
  stop_sequence :: int

record GTFSTrip =
  trip_id :: string
  route_id :: string
  service_id :: string
  trip_short_name :: string
  trip_headsign :: string
  direction_id :: string

record GTFSCalendar =
  service_id :: string
  monday :: string
  tuesday :: string
  wednesday :: string
  thursday :: string
  friday :: string
  saturday :: string
  sunday :: string
  start_date :: string
  end_date :: string

record GTFSCalendarDate =
  service_id :: string
  date :: string
  exception_type :: string

record GtfsCache =
  stopTimes :: "GTFSStopTime list"
  trips :: "GTFSTrip list"
  calendar :: "GTFSCalendar list"
  calendarDates :: "GTFSCalendarDate list"
  lastFetch :: "int option"

section \<open>The environment: the host, the modules outside the sources, the cache\<close>

text \<open>
  \<open>stations\<close> and \<open>getStationById\<close> are imported from the module \<open>stations\<close>, which is not
  among the sources; both are parameters of the model. Of a station the code reads the
  fields \<open>id\<close>, \<open>code\<close> and \<open>name\<close>.
\<close>

record Station =
  id' :: string
  code :: string
  name :: string

text \<open>
  \<open>await fetchGTFSData()\<close> reads the network and the file system: its outcome (it returns
  \<open>true\<close> or \<open>false\<close>, or it raises) and the contents of \<open>gtfsCache\<close> after the call are
  inputs of the model.

  The host's library is a parameter as well. \<open>zoneOffsetMs t\<close> is the offset from UTC, in
  milliseconds, that \<open>toLocaleString\<close> and \<open>toLocaleDateString\<close> apply at the instant \<open>t\<close>
  for the time zone America/Los_Angeles; \<open>zoneIsPDT t\<close> says whether the short name of the
  zone at \<open>t\<close> is PDT; \<open>toUpperCase\<close> is \<open>String.prototype.toUpperCase\<close>;
  \<open>legacyDateParse\<close> is what the \<open>Date\<close> constructor makes of a string outside the
  ECMAScript date-time format, which the language leaves to the implementation.

  Calls to the console print and return; calls to the tracer are not modelled, the
  expressions in their arguments are.
\<close>

datatype FetchOutcome = FetchReturns bool | FetchThrows

record Env =
  fetchOutcome :: FetchOutcome
  gtfsCache :: GtfsCache
  stations :: "Station list"
  getStationById :: "string \<Rightarrow> Station option"
  zoneOffsetMs :: "int \<Rightarrow> int"
  zoneIsPDT :: "int \<Rightarrow> bool"
  toUpperCase :: "string \<Rightarrow> string"
  legacyDateParse :: "string \<Rightarrow> jsnum"

text \<open>The Pacific civil date of an instant (milliseconds since the epoch).\<close>

definition pacificCivil :: "Env \<Rightarrow> int \<Rightarrow> civil" where
  "pacificCivil env t = civil_from_days ((t + zoneOffsetMs env t) div msPerDay)"

section \<open>Calendar resolver: \<open>getPacificTimeInfo\<close> and \<open>getActiveServiceId\<close>\<close>

text \<open>
  \<open>date.toLocaleDateString('en-US', {timeZone: 'America/Los_Angeles', year: 'numeric',
  month: '2-digit', day: '2-digit'}).split('/')\<close>: month, day and year of the Pacific civil
  date, in this order, month and day with two digits, the year in decimal. Where the code
  applies \<open>parseInt\<close> to these parts, the model takes the numbers of \<open>pacificCivil\<close>.
\<close>

definition localeDateParts :: "Env \<Rightarrow> int \<Rightarrow> string list" where
  "localeDateParts env t =
     (case pacificCivil env t of (y, m, d) \<Rightarrow>
        [padStart2 (numToString (Some m)), padStart2 (numToString (Some d)), numToString (Some y)])"

text \<open>The result of \<open>getPacificTimeInfo\<close>; its third component, \<open>pacificDate\<close>, is read by no
  caller and is left out. \<open>dayOfWeek\<close> is the day of the week of the Pacific wall-clock time.
  The function is called by \<open>getActiveServiceId\<close> only, and that at line 560 only, with the
  query date, which is a valid time value there.\<close>

record PacificTimeInfo =
  dayOfWeek :: int
  dateStr :: string

definition getPacificTimeInfo :: "Env \<Rightarrow> int \<Rightarrow> PacificTimeInfo" where
  "getPacificTimeInfo env t =
     (let parts = localeDateParts env t
      in \<lparr>dayOfWeek = weekday ((t + zoneOffsetMs env t) div msPerDay),
          dateStr = parts ! 2 @ parts ! 0 @ parts ! 1\<rparr>)"

text \<open>\<open>cal[dayNames[dayOfWeek]]\<close>, with \<open>dayNames\<close> starting at Sunday.\<close>

definition dayFlag :: "int \<Rightarrow> GTFSCalendar \<Rightarrow> string option" where
  "dayFlag dow cal =
     (if dow = 0 then Some (sunday cal)
      else if dow = 1 then Some (monday cal)
      else if dow = 2 then Some (tuesday cal)
      else if dow = 3 then Some (wednesday cal)
      else if dow = 4 then Some (thursday cal)
      else if dow = 5 then Some (friday cal)
      else if dow = 6 then Some (saturday cal)
      else None)"

text \<open>The \<open>for\<close> loop of \<open>getActiveServiceId\<close> over the calendar rows; each \<open>continue\<close> is a
  recursive call on the rest.\<close>

fun serviceLoop ::
  "int \<Rightarrow> string \<Rightarrow> GTFSCalendarDate list \<Rightarrow> GTFSCalendar list \<Rightarrow> string option" where
  "serviceLoop dow ds cds [] = None"
| "serviceLoop dow ds cds (cal # rest) =
     (let startDate = parseInt (start_date cal);
          endDate = parseInt (end_date cal);
          currentDate = parseInt ds
      in if js_lt currentDate startDate \<or> js_gt currentDate endDate
         then serviceLoop dow ds cds rest
         else if find (\<lambda>cd. date cd = ds \<and>
                              GTFSCalendarDate.service_id cd = GTFSCalendar.service_id cal \<and>
                              exception_type cd = ''2'') cds \<noteq> None
         then serviceLoop dow ds cds rest
         else if dayFlag dow cal = Some ''1'' then Some (GTFSCalendar.service_id cal)
         else serviceLoop dow ds cds rest)"

definition getActiveServiceId ::
  "Env \<Rightarrow> int \<Rightarrow> GTFSCalendar list \<Rightarrow> GTFSCalendarDate list \<Rightarrow> string option" where
  "getActiveServiceId env t cals cds =
     (let info = getPacificTimeInfo env t
      in case find (\<lambda>cd. date cd = dateStr info \<and> exception_type cd = ''1'') cds of
           Some exceptionDate \<Rightarrow> Some (GTFSCalendarDate.service_id exceptionDate)
         | None \<Rightarrow> serviceLoop (dayOfWeek info) (dateStr info) cds cals)"

section \<open>Stop identifier mapper: \<open>findGTFSStopId\<close>\<close>

definition codeMapping :: "(string \<times> string) list" where
  "codeMapping =
     [(''SF'', ''7001''), (''22ND'', ''7002''), (''BAYSHORE'', ''7003''), (''SSF'', ''7004''),
      (''SB'', ''7005''), (''MB'', ''7006''), (''MILLBRAE'', ''7006''), (''BURLINGAME'', ''7008''),
      (''SM'', ''7009''), (''HAYWARD'', ''7010''), (''HILLSDALE'', ''7011''),
      (''BELMONT'', ''7012''), (''SC'', ''7013''), (''SAN CARLOS'', ''7013''), (''RW'', ''7014''),
      (''REDWOOD'', ''7014''), (''MP'', ''7016''), (''MENLO'', ''7016''), (''PA'', ''7017''),
      (''PALO ALTO'', ''7017''), (''STANFORD'', ''253774''), (''CALAVEUE'', ''7019''),
      (''CALIFORNIA'', ''7019''), (''SAN ANTONIO'', ''7020''), (''MV'', ''7021''),
      (''MOUNTAIN VIEW'', ''7021''), (''SUNNYVALE'', ''7022''), (''LAWRENCE'', ''7023''),
      (''SANTACLARA'', ''7024''), (''SANTA CLARA'', ''7024''), (''COLLEGEPARK'', ''7025''),
      (''COLLEGE PARK'', ''7025''), (''SJ'', ''7026''), (''DIRIDON'', ''7026''),
      (''TAMIEN'', ''7027''), (''CAPITOL'', ''7028''), (''BH'', ''7029''),
      (''BLOSSOM HILL'', ''7029''), (''MH'', ''7030''), (''MORGAN HILL'', ''7030''),
      (''SAN MARTIN'', ''7031''), (''GILROY'', ''7032'')]"

definition findGTFSStopId :: "Env \<Rightarrow> string \<Rightarrow> string \<Rightarrow> string" where
  "findGTFSStopId env stationCode directionId =
     (case map_of codeMapping (toUpperCase env stationCode) of
        None \<Rightarrow> stationCode @ (if directionId = ''0'' then ''1'' else ''2'')
      | Some baseCode \<Rightarrow>
          if baseCode = ''253774'' then (if directionId = ''0'' then ''2537740'' else ''2537744'')
          else baseCode @ (if directionId = ''0'' then ''1'' else ''2''))"

section \<open>Scraped delays, errors and the result records\<close>

text \<open>
  Modelled from the spec: the type \<open>TrainDelay\<close> is declared in the module
  \<open>caltrain-alerts-scraper\<close>, which is not among the sources. The spec (section 3,
  ScrapedDelay) gives it a train short name and a delay in minutes; the code reads
  \<open>delayMinutes\<close> only. The \<open>Map\<close> of scraped delays is an association list of its entries.
\<close>

record TrainDelay =
  trainShortName :: string
  delayMinutes :: int

datatype JsError = TypeError | RangeError | FetchError

datatype Direction = Northbound | Southbound

datatype TrainType = Local | Limited | Express

text \<open>
  The objects pushed to \<open>trains\<close>. \<open>departureTime\<close> and \<open>arrivalTime\<close> are ISO strings in
  the code, written by \<open>toISOString\<close> and read back by \<open>new Date\<close> in the comparator of the
  sort; the model keeps the time value (milliseconds since the epoch) they denote.
\<close>

record Train =
  trainNumber :: string
  tripId :: string
  direction :: Direction
  departureTime :: int
  arrivalTime :: int
  duration :: int
  type' :: TrainType

section \<open>Trip time materializer: lines 629 to 715 of \<open>getScheduledTrains\<close>\<close>

text \<open>
  \<open>getScheduledTrains\<close> has the materializer, the overlay, the inclusion test and the
  classification inline in its loop. The model gives each block a function, named after
  the component of the specification that it implements, and states the lines it covers.
\<close>

text \<open>
  Lines 630 and 654 to 660: a stop time \<open>HH:MM:SS\<close> is split at the colons; the hour is
  \<open>parseInt\<close> of the first piece, the minute and the second are the next two pieces padded
  to two characters. \<open>padStart\<close> on a missing piece raises a \<open>TypeError\<close>.
\<close>

definition parseTime :: "string \<Rightarrow> JsError + (jsnum \<times> string \<times> string)" where
  "parseTime s =
     (case split_on CHR '':'' s of
        hh # mm # ss # _ \<Rightarrow> Inr (parseInt hh, padStart2 mm, padStart2 ss)
      | _ \<Rightarrow> Inl TypeError)"

text \<open>\<open>a % b\<close> for a positive \<open>b\<close>: the remainder has the sign of the dividend.\<close>

definition js_rem :: "int \<Rightarrow> int \<Rightarrow> int" where
  "js_rem a b = (if a \<ge> 0 then a mod b else - ((- a) mod b))"

text \<open>
  Lines 672 to 684: \<open>new Date(year, month - 1, day)\<close> followed by
  \<open>setDate(getDate() + dayOffset)\<close> and the three getters. A year from 0 to 99 is taken as
  1900 plus the year by the constructor; a \<open>NaN\<close> offset gives an Invalid Date, whose
  getters return \<open>NaN\<close>. Time values beyond the range of \<open>Date\<close> are not modelled.
\<close>

definition shiftDate :: "civil \<Rightarrow> jsnum \<Rightarrow> civil option" where
  "shiftDate base dayOffset =
     (case base of (y, m, d) \<Rightarrow>
        case dayOffset of
          None \<Rightarrow> None
        | Some k \<Rightarrow>
            Some (civil_from_days
                    (days_from_civil (if 0 \<le> y \<and> y \<le> 99 then 1900 + y else y, m, d) + k)))"

definition twoDigits :: "string \<Rightarrow> int option" where
  "twoDigits s =
     (case s of
        [a, b] \<Rightarrow> if isDigit a \<and> isDigit b then Some (digitVal a * 10 + digitVal b) else None
      | _ \<Rightarrow> None)"

text \<open>
  Lines 688 to 702: the Pacific offset, read off the time-zone name at 12:00 UTC of the
  service date (the variables \<open>year\<close>, \<open>month\<close>, \<open>day\<close>): \<open>-07:00\<close> when the name is PDT,
  \<open>-08:00\<close> otherwise, also when \<open>testDate\<close> is invalid. The result is the offset in
  milliseconds. The string is in the ECMAScript format when the year has four digits.
\<close>

definition tzOffset :: "Env \<Rightarrow> civil \<Rightarrow> int" where
  "tzOffset env base =
     (case base of (y, m, d) \<Rightarrow>
        let testDate =
              (if 1000 \<le> y \<and> y \<le> 9999 then Some (days_from_civil (y, m, d) * msPerDay + 12 * 3600000)
               else legacyDateParse env
                      (numToString (Some y) @ ''-'' @ padStart2 (numToString (Some m)) @ ''-'' @
                       padStart2 (numToString (Some d)) @ ''T12:00:00Z''));
            isPDT' = (case testDate of None \<Rightarrow> False | Some t \<Rightarrow> zoneIsPDT env t)
        in if isPDT' then - 7 * 3600000 else - 8 * 3600000)"

definition tzOffsetStr :: "int \<Rightarrow> string" where
  "tzOffsetStr off = (if off = - 7 * 3600000 then ''-07:00'' else ''-08:00'')"

text \<open>
  The seconds of the ECMAScript date-time format: two digits, or two digits, a point and
  three digits of milliseconds. The result is the seconds and the milliseconds.
\<close>

definition secondsMs :: "string \<Rightarrow> (int \<times> int) option" where
  "secondsMs s =
     (case s of
        [a, b] \<Rightarrow> map_option (\<lambda>se. (se, 0)) (twoDigits [a, b])
      | [a, b, p, x, y, z] \<Rightarrow>
          if p = CHR ''.'' \<and> isDigit x \<and> isDigit y \<and> isDigit z
          then map_option (\<lambda>se. (se, digitVal x * 100 + digitVal y * 10 + digitVal z))
                 (twoDigits [a, b])
          else None
      | _ \<Rightarrow> None)"

text \<open>
  Lines 705 to 706 and 714 to 715: the string
  \<open>${year}-${month}-${day}T${hour}:${min}:${sec}${tzOffset}\<close> and \<open>new Date\<close> of it. The
  string is in the ECMAScript date-time format when the year has four digits, the hour is
  from 0 to 23, the minute is two digits up to 59 and the second is two digits up to 59,
  with or without three digits of milliseconds; the time value is then the civil time
  minus the offset. Any other string goes to \<open>legacyDateParse\<close>.
\<close>

definition dateTimeStr :: "civil option \<Rightarrow> jsnum \<Rightarrow> string \<Rightarrow> string \<Rightarrow> int \<Rightarrow> string" where
  "dateTimeStr ymd hourNormalized mm ss off =
     (case ymd of
        None \<Rightarrow> ''NaN-NaN-NaN''
      | Some (y, m, d) \<Rightarrow>
          numToString (Some y) @ ''-'' @ padStart2 (numToString (Some m)) @ ''-'' @
          padStart2 (numToString (Some d))) @
     ''T'' @ padStart2 (numToString hourNormalized) @ '':'' @ mm @ '':'' @ ss @ tzOffsetStr off"

definition newDate :: "Env \<Rightarrow> civil option \<Rightarrow> jsnum \<Rightarrow> string \<Rightarrow> string \<Rightarrow> int \<Rightarrow> jsnum" where
  "newDate env ymd hourNormalized mm ss off =
     (case (ymd, hourNormalized, twoDigits mm, secondsMs ss) of
        (Some (y, m, d), Some h, Some mi, Some (se, ms)) \<Rightarrow>
          if 1000 \<le> y \<and> y \<le> 9999 \<and> 0 \<le> h \<and> h \<le> 23 \<and> mi \<le> 59 \<and> se \<le> 59
          then Some (days_from_civil (y, m, d) * msPerDay + h * 3600000 + mi * 60000 + se * 1000
                     + ms - off)
          else legacyDateParse env (dateTimeStr ymd hourNormalized mm ss off)
      | _ \<Rightarrow> legacyDateParse env (dateTimeStr ymd hourNormalized mm ss off))"

text \<open>
  The materializer for one stop time: the hour is split into a day offset
  \<open>Math.floor(hour / 24)\<close> and \<open>hour % 24\<close>, the service date is shifted by the day offset,
  and the instant is composed with the offset \<open>off\<close>, which the caller computes once from
  the service date.
\<close>

definition materialize :: "Env \<Rightarrow> civil \<Rightarrow> int \<Rightarrow> string \<Rightarrow> JsError + jsnum" where
  "materialize env base off s =
     (case parseTime s of
        Inl e \<Rightarrow> Inl e
      | Inr (hour, mm, ss) \<Rightarrow>
          let dayOffset = map_option (\<lambda>h. h div 24) hour;
              hourNormalized = map_option (\<lambda>h. js_rem h 24) hour
          in Inr (newDate env (shiftDate base dayOffset) hourNormalized mm ss off))"

section \<open>Delay overlay: lines 717 to 743\<close>

text \<open>
  \<open>actualDepartureTimeMs\<close> and \<open>actualArrivalTimeMs\<close> start at the scheduled time values.
  The feed is asked first (\<open>getTripDelay\<close> without a train number); a result with a delay
  other than 0 moves both. The scraped alerts are asked when the departure is still the
  scheduled one: an entry under the trip's short name moves both by its minutes.
\<close>

definition overlay ::
  "TripUpdate list \<Rightarrow> (string \<times> TrainDelay) list \<Rightarrow> GTFSTrip \<Rightarrow> jsnum \<Rightarrow> jsnum \<Rightarrow> jsnum \<times> jsnum" where
  "overlay tripUpdates caltrainAlerts trip departureMs arrivalMs =
     (let fromFeed =
            (if tripUpdates \<noteq> [] then
               (case getTripDelay tripUpdates (GTFSTrip.trip_id trip) None of
                  None \<Rightarrow> (departureMs, arrivalMs)
                | Some delayInfo \<Rightarrow>
                    if info_delay delayInfo \<noteq> 0
                    then (js_add departureMs (info_delay delayInfo * 60 * 1000),
                          js_add arrivalMs (info_delay delayInfo * 60 * 1000))
                    else (departureMs, arrivalMs))
             else (departureMs, arrivalMs))
      in if js_seq (fst fromFeed) departureMs \<and> caltrainAlerts \<noteq> [] then
           (case map_of caltrainAlerts (trip_short_name trip) of
              None \<Rightarrow> fromFeed
            | Some alertDelay \<Rightarrow>
                (js_add departureMs (delayMinutes alertDelay * 60 * 1000),
                 js_add arrivalMs (delayMinutes alertDelay * 60 * 1000)))
         else fromFeed)"

section \<open>Inclusion test and classification: lines 745 to 784\<close>

text \<open>\<open>hasDelay\<close> is \<open>actualDepartureTimeMs !== departureDate.getTime()\<close>.\<close>

definition hasDelay :: "jsnum \<Rightarrow> jsnum \<Rightarrow> bool" where
  "hasDelay actualDepartureTimeMs departureMs \<longleftrightarrow> \<not> js_seq actualDepartureTimeMs departureMs"

text \<open>The two tests that end in \<open>continue\<close>: the result is false when the trip is skipped.\<close>

definition included :: "jsnum \<Rightarrow> jsnum \<Rightarrow> jsnum \<Rightarrow> int \<Rightarrow> bool" where
  "included actualDepartureTimeMs actualArrivalTimeMs departureMs currentTimeMs =
     (if js_lt actualArrivalTimeMs (Some currentTimeMs) then False
      else if js_lt actualDepartureTimeMs (Some currentTimeMs)
           then hasDelay actualDepartureTimeMs departureMs
      else True)"

definition trainTypeOf :: "nat \<Rightarrow> TrainType" where
  "trainTypeOf tripStopCount =
     (if tripStopCount \<ge> 20 then Local
      else if tripStopCount \<ge> 13 then Limited
      else Express)"

definition tripStopCount :: "GTFSStopTime list \<Rightarrow> GTFSTrip \<Rightarrow> nat" where
  "tripStopCount sts trip =
     length (filter (\<lambda>st. GTFSStopTime.trip_id st = GTFSTrip.trip_id trip) sts)"

section \<open>The loop over the active trips: lines 616 to 795\<close>

text \<open>
  One iteration: \<open>Inr None\<close> is a \<open>continue\<close>, \<open>Inr (Some train)\<close> a \<open>trains.push\<close>, \<open>Inl\<close>
  an exception. \<open>noTrainsYet\<close> is \<open>trains.length === 0\<close> at the start of the iteration.

  The pieces of both stop times are read (lines 654 to 660) before a date is built, so a
  \<open>TypeError\<close> of either comes first. While \<open>trains\<close> is empty, line 710 prints
  \<open>departureDate.toISOString()\<close>, which raises a \<open>RangeError\<close> on an Invalid Date. In
  the pushed record \<open>toISOString\<close> raises likewise, first for the departure, then for the
  arrival.
\<close>

definition processTrip ::
  "Env \<Rightarrow> int \<Rightarrow> TripUpdate list \<Rightarrow> (string \<times> TrainDelay) list \<Rightarrow> string \<Rightarrow> bool \<Rightarrow>
   string \<Rightarrow> string \<Rightarrow> bool \<Rightarrow> GTFSTrip \<Rightarrow> JsError + Train option" where
  "processTrip env t tripUpdates caltrainAlerts directionId isNorthbound originStopId destStopId
     noTrainsYet trip =
     (if direction_id trip \<noteq> directionId then Inr None
      else
        case (find (\<lambda>st. GTFSStopTime.trip_id st = GTFSTrip.trip_id trip \<and> stop_id st = originStopId)
                (stopTimes (gtfsCache env)),
              find (\<lambda>st. GTFSStopTime.trip_id st = GTFSTrip.trip_id trip \<and> stop_id st = destStopId)
                (stopTimes (gtfsCache env))) of
          (Some originStop, Some destStop) \<Rightarrow>
            (let base = pacificCivil env t;
                 off = tzOffset env base
             in case materialize env base off (departure_time originStop) of
                  Inl e \<Rightarrow> Inl e
                | Inr departureMs \<Rightarrow>
                    (case materialize env base off (arrival_time destStop) of
                       Inl e \<Rightarrow> Inl e
                     | Inr arrivalMs \<Rightarrow>
                         if noTrainsYet \<and> departureMs = None then Inl RangeError
                         else
                         (case overlay tripUpdates caltrainAlerts trip departureMs arrivalMs of
                            (actualDepartureTimeMs, actualArrivalTimeMs) \<Rightarrow>
                              if \<not> included actualDepartureTimeMs actualArrivalTimeMs departureMs t
                              then Inr None
                              else
                                (case (departureMs, arrivalMs) of
                                   (Some dep, Some arr) \<Rightarrow>
                                     Inr (Some
                                       \<lparr>trainNumber =
                                          (if trip_short_name trip \<noteq> [] then trip_short_name trip
                                           else GTFSTrip.trip_id trip),
                                        tripId = GTFSTrip.trip_id trip,
                                        direction = (if isNorthbound then Northbound else Southbound),
                                        departureTime = dep,
                                        arrivalTime = arr,
                                        duration = Math_round_div (arr - dep) 60000,
                                        type' = trainTypeOf (tripStopCount (stopTimes (gtfsCache env)) trip)\<rparr>)
                                 | _ \<Rightarrow> Inl RangeError))))
        | _ \<Rightarrow> Inr None)"

fun tripLoop ::
  "Env \<Rightarrow> int \<Rightarrow> TripUpdate list \<Rightarrow> (string \<times> TrainDelay) list \<Rightarrow> string \<Rightarrow> bool \<Rightarrow>
   string \<Rightarrow> string \<Rightarrow> GTFSTrip list \<Rightarrow> Train list \<Rightarrow> JsError + Train list" where
  "tripLoop env t tus alerts dir nb oid did [] trains = Inr trains"
| "tripLoop env t tus alerts dir nb oid did (trip # rest) trains =
     (case processTrip env t tus alerts dir nb oid did (trains = []) trip of
        Inl e \<Rightarrow> Inl e
      | Inr None \<Rightarrow> tripLoop env t tus alerts dir nb oid did rest trains
      | Inr (Some train) \<Rightarrow> tripLoop env t tus alerts dir nb oid did rest (trains @ [train]))"

section \<open>The entry point \<open>getScheduledTrains\<close>\<close>

text \<open>\<open>Array.prototype.findIndex\<close>: the index of the first match, or -1.\<close>

fun findIndexFrom :: "int \<Rightarrow> ('a \<Rightarrow> bool) \<Rightarrow> 'a list \<Rightarrow> int" where
  "findIndexFrom i P [] = - 1"
| "findIndexFrom i P (x # xs) = (if P x then i else findIndexFrom (i + 1) P xs)"

definition findIndex :: "('a \<Rightarrow> bool) \<Rightarrow> 'a list \<Rightarrow> int" where
  "findIndex P xs = findIndexFrom 0 P xs"

text \<open>
  The statements inside the outer \<open>try\<close> (lines 518 to 814), which are reached with a valid
  query date only. The inner \<open>try\<close> around the loop returns the empty list when an
  iteration raises. \<open>sort\<close> with the comparator on the departure times is a
  stable sort by that key, \<open>slice(0, 5)\<close> keeps the first five.
\<close>

definition getScheduledTrainsTry ::
  "Env \<Rightarrow> string \<Rightarrow> string \<Rightarrow> int \<Rightarrow> TripUpdate list \<Rightarrow> (string \<times> TrainDelay) list \<Rightarrow>
   JsError + Train list" where
  "getScheduledTrainsTry env originStationId destinationStationId t tripUpdates caltrainAlerts =
     (case fetchOutcome env of
        FetchThrows \<Rightarrow> Inl FetchError
      | FetchReturns loaded \<Rightarrow>
          if \<not> loaded \<or> trips (gtfsCache env) = [] then Inr []
          else
            case (getStationById env originStationId, getStationById env destinationStationId) of
              (Some originStation, Some destinationStation) \<Rightarrow>
                (case getActiveServiceId env t (calendar (gtfsCache env)) (calendarDates (gtfsCache env)) of
                   None \<Rightarrow> Inr []
                 | Some serviceId \<Rightarrow>
                     if serviceId = [] then Inr []
                     else
                       let activeTrips =
                             filter (\<lambda>trip. GTFSTrip.service_id trip = serviceId) (trips (gtfsCache env));
                           originIndex = findIndex (\<lambda>s. id' s = originStationId) (stations env);
                           destIndex = findIndex (\<lambda>s. id' s = destinationStationId) (stations env);
                           isNorthbound = (originIndex > destIndex);
                           directionId = (if isNorthbound then ''0'' else ''1'');
                           originStopId = findGTFSStopId env (code originStation) directionId;
                           destStopId = findGTFSStopId env (code destinationStation) directionId
                       in case tripLoop env t tripUpdates caltrainAlerts directionId isNorthbound
                                 originStopId destStopId activeTrips [] of
                            Inl e \<Rightarrow> Inr []
                          | Inr trains \<Rightarrow> Inr (take 5 (sort_key departureTime trains)))
            | _ \<Rightarrow> Inr [])"

text \<open>
  The query date is a \<open>Date\<close>: a time value, or an Invalid Date (\<open>None\<close>). Before the outer
  \<open>try\<close> is entered, lines 508 to 516 compute the attributes of the tracing span, among them
  \<open>date.toISOString()\<close> (line 512), which raises a \<open>RangeError\<close> on an Invalid Date; the
  function is \<open>async\<close>, so its promise is rejected. With a valid date the body runs, and
  the outer \<open>catch\<close> returns the empty list for every exception of the body.
\<close>

definition getScheduledTrains ::
  "Env \<Rightarrow> string \<Rightarrow> string \<Rightarrow> jsnum \<Rightarrow> TripUpdate list \<Rightarrow> (string \<times> TrainDelay) list \<Rightarrow>
   JsError + Train list" where
  "getScheduledTrains env originStationId destinationStationId date' tripUpdates caltrainAlerts =
     (case date' of
        None \<Rightarrow> Inl RangeError
      | Some t \<Rightarrow>
          (case getScheduledTrainsTry env originStationId destinationStationId t tripUpdates
                  caltrainAlerts of
             Inl e \<Rightarrow> Inr []
           | Inr trains \<Rightarrow> Inr trains))"

section \<open>A small timetable\<close>

text \<open>
  Two stations, one service that runs Monday to Saturday in 2026, and two southbound trips
  from San Francisco to San Jose: train 101 leaves at 08:00 and arrives at 08:45, train 199
  leaves at 27:30 (03:30 of the next civil day) and arrives at 28:15. The host follows the
  daylight rule in force since 2007, maps the letters a to z to upper case, and parses no
  string outside the ECMAScript format.
\<close>

definition exampleStations :: "Station list" where
  "exampleStations =
     [\<lparr>id' = ''sf'', code = ''SF'', name = ''San Francisco''\<rparr>,
      \<lparr>id' = ''sj'', code = ''SJ'', name = ''San Jose Diridon''\<rparr>]"

definition trip101 :: GTFSTrip where
  "trip101 = \<lparr>GTFSTrip.trip_id = ''T101'', route_id = ''L1'', service_id = ''WKDY'',
      trip_short_name = ''101'', trip_headsign = ''San Jose'', direction_id = ''1''\<rparr>"

definition trip199 :: GTFSTrip where
  "trip199 = \<lparr>GTFSTrip.trip_id = ''T199'', route_id = ''L1'', service_id = ''WKDY'',
      trip_short_name = ''199'', trip_headsign = ''San Jose'', direction_id = ''1''\<rparr>"

definition exampleCache :: GtfsCache where
  "exampleCache =
     \<lparr>stopTimes =
        [\<lparr>GTFSStopTime.trip_id = ''T101'', arrival_time = ''08:00:00'', departure_time = ''08:00:00'',
          stop_id = ''70012'', stop_sequence = 1\<rparr>,
         \<lparr>GTFSStopTime.trip_id = ''T101'', arrival_time = ''08:45:00'', departure_time = ''08:45:00'',
          stop_id = ''70262'', stop_sequence = 2\<rparr>,
         \<lparr>GTFSStopTime.trip_id = ''T199'', arrival_time = ''27:30:00'', departure_time = ''27:30:00'',
          stop_id = ''70012'', stop_sequence = 1\<rparr>,
         \<lparr>GTFSStopTime.trip_id = ''T199'', arrival_time = ''28:15:00'', departure_time = ''28:15:00'',
          stop_id = ''70262'', stop_sequence = 2\<rparr>],
      trips = [trip199, trip101],
      calendar =
        [\<lparr>GTFSCalendar.service_id = ''WKDY'', monday = ''1'', tuesday = ''1'', wednesday = ''1'',
          thursday = ''1'', friday = ''1'', saturday = ''1'', sunday = ''0'',
          start_date = ''20260101'', end_date = ''20261231''\<rparr>],
      calendarDates = [],
      lastFetch = None\<rparr>"

definition exampleEnv :: Env where
  "exampleEnv =
     \<lparr>fetchOutcome = FetchReturns True,
      gtfsCache = exampleCache,
      stations = exampleStations,
      getStationById = (\<lambda>i. find (\<lambda>s. id' s = i) exampleStations),
      zoneOffsetMs = ruleOffsetMs,
      zoneIsPDT = ruleIsPDT,
      toUpperCase = asciiUpperCase,
      legacyDateParse = (\<lambda>s. None)\<rparr>"


text \<open>The records the two trips give on a day without delays (2026-03-03, a Tuesday).\<close>

definition train101 :: Train where
  "train101 = \<lparr>trainNumber = ''101'', tripId = ''T101'', direction = Southbound,
      departureTime = 1772553600000, arrivalTime = 1772556300000, duration = 45, type' = Express\<rparr>"

definition train199 :: Train where
  "train199 = \<lparr>trainNumber = ''199'', tripId = ''T199'', direction = Southbound,
      departureTime = 1772623800000, arrivalTime = 1772626500000, duration = 45, type' = Express\<rparr>"

text \<open>A feed entry for trip T101 that is 10 minutes late at its first stop and 13 minutes
  late at its second, one that is 20 seconds late at its only stop, and a scraped alert that
  gives train 101 a delay of 5 minutes.\<close>

definition feedLate13 :: TripUpdate where
  "feedLate13 =
     \<lparr>TripUpdate.tripId = ''T101'', routeId = ''L1'', startDate = ''20260303'', startTime = ''08:00:00'',
      stopTimeUpdates =
        [\<lparr>stopId = ''70012'', stopSequence = 1, arrival = None,
          departure = Some \<lparr>delay = 600, time = 0\<rparr>, scheduleRelationship = None\<rparr>,
         \<lparr>stopId = ''70262'', stopSequence = 2, arrival = Some \<lparr>delay = 780, time = 0\<rparr>,
          departure = None, scheduleRelationship = None\<rparr>]\<rparr>"

definition feedLate20s :: TripUpdate where
  "feedLate20s =
     \<lparr>TripUpdate.tripId = ''T101'', routeId = ''L1'', startDate = ''20260303'', startTime = ''08:00:00'',
      stopTimeUpdates =
        [\<lparr>stopId = ''70012'', stopSequence = 1, arrival = None,
          departure = Some \<lparr>delay = 20, time = 0\<rparr>, scheduleRelationship = None\<rparr>]\<rparr>"

definition alerts5 :: "(string \<times> TrainDelay) list" where
  "alerts5 = [(''101'', \<lparr>trainShortName = ''101'', delayMinutes = 5\<rparr>)]"

text \<open>Two calendar exceptions: the weekday service does not run on 2026-03-03, and a
  holiday service is added on 2026-03-04.\<close>

definition exampleExceptions :: "GTFSCalendarDate list" where
  "exampleExceptions =
     [\<lparr>GTFSCalendarDate.service_id = ''WKDY'', date = ''20260303'', exception_type = ''2''\<rparr>,
      \<lparr>GTFSCalendarDate.service_id = ''HOLIDAY'', date = ''20260304'', exception_type = ''1''\<rparr>]"

text \<open>The same environment with a data set whose only trip has a departure time without
  seconds at its origin stop.\<close>

definition brokenCache :: GtfsCache where
  "brokenCache =
     \<lparr>stopTimes =
        [\<lparr>GTFSStopTime.trip_id = ''T101'', arrival_time = ''08:00'', departure_time = ''08:00'',
          stop_id = ''70012'', stop_sequence = 1\<rparr>,
         \<lparr>GTFSStopTime.trip_id = ''T101'', arrival_time = ''08:45:00'', departure_time = ''08:45:00'',
          stop_id = ''70262'', stop_sequence = 2\<rparr>],
      trips = [trip101],
      calendar = calendar exampleCache,
      calendarDates = [],
      lastFetch = None\<rparr>"

definition brokenEnv :: Env where
  "brokenEnv = exampleEnv\<lparr>gtfsCache := brokenCache\<rparr>"

text \<open>A calendar row as \<open>parseCSV\<close> gives it for a line of \<open>calendar.txt\<close> that ends after
  the day columns: the two trailing columns, the start and the end date, are empty.\<close>

definition undatedCalendar :: GTFSCalendar where
  "undatedCalendar =
     \<lparr>GTFSCalendar.service_id = ''WKDY'', monday = ''1'', tuesday = ''1'', wednesday = ''1'',
      thursday = ''1'', friday = ''1'', saturday = ''0'', sunday = ''0'',
      start_date = [], end_date = []\<rparr>"

text \<open>The example environment with a data set whose first trip has a departure time with
  letters for the hour at its origin stop.\<close>

definition garbledCache :: GtfsCache where
  "garbledCache =
     \<lparr>stopTimes =
        [\<lparr>GTFSStopTime.trip_id = ''T101'', arrival_time = ''xx:00:00'', departure_time = ''xx:00:00'',
          stop_id = ''70012'', stop_sequence = 1\<rparr>,
         \<lparr>GTFSStopTime.trip_id = ''T101'', arrival_time = ''08:45:00'', departure_time = ''08:45:00'',
          stop_id = ''70262'', stop_sequence = 2\<rparr>,
         \<lparr>GTFSStopTime.trip_id = ''T199'', arrival_time = ''27:30:00'', departure_time = ''27:30:00'',
          stop_id = ''70012'', stop_sequence = 1\<rparr>,
         \<lparr>GTFSStopTime.trip_id = ''T199'', arrival_time = ''28:15:00'', departure_time = ''28:15:00'',
          stop_id = ''70262'', stop_sequence = 2\<rparr>],
      trips = [trip101, trip199],
      calendar = calendar exampleCache,
      calendarDates = [],
      lastFetch = None\<rparr>"

definition garbledEnv :: Env where
  "garbledEnv = exampleEnv\<lparr>gtfsCache := garbledCache\<rparr>"

section \<open>The specification's wording, for comparison\<close>

text \<open>
  The calendar resolver as section 4.2 of the specification words it: an exception of type
  added for the date wins; otherwise the first calendar, in dataset order, whose range
  contains the date, whose flag for the day of the week (0 = Sunday) is set, and which has
  no exception of type removed for its service and the date.
\<close>

definition specInRange :: "string \<Rightarrow> GTFSCalendar \<Rightarrow> bool" where
  "specInRange ds cal =
     (case (parseInt (start_date cal), parseInt (end_date cal), parseInt ds) of
        (Some first, Some final, Some current) \<Rightarrow> first \<le> current \<and> current \<le> final
      | _ \<Rightarrow> False)"

definition specFlagSet :: "int \<Rightarrow> GTFSCalendar \<Rightarrow> bool" where
  "specFlagSet dow cal \<longleftrightarrow>
     0 \<le> dow \<and> dow \<le> 6 \<and>
     [sunday cal, monday cal, tuesday cal, wednesday cal, thursday cal, friday cal, saturday cal]
       ! nat dow = ''1''"

definition specRemoved :: "string \<Rightarrow> GTFSCalendarDate list \<Rightarrow> GTFSCalendar \<Rightarrow> bool" where
  "specRemoved ds cds cal \<longleftrightarrow>
     (\<exists>cd \<in> set cds. GTFSCalendarDate.service_id cd = GTFSCalendar.service_id cal \<and>
                     date cd = ds \<and> exception_type cd = ''2'')"

definition specActiveService ::
  "int \<Rightarrow> string \<Rightarrow> GTFSCalendar list \<Rightarrow> GTFSCalendarDate list \<Rightarrow> string option" where
  "specActiveService dow ds cals cds =
     (case find (\<lambda>cd. exception_type cd = ''1'' \<and> date cd = ds) cds of
        Some added \<Rightarrow> Some (GTFSCalendarDate.service_id added)
      | None \<Rightarrow>
          map_option GTFSCalendar.service_id
            (find (\<lambda>cal. specInRange ds cal \<and> specFlagSet dow cal \<and> \<not> specRemoved ds cds cal) cals))"

text \<open>
  The materializer as section 4.4 of the specification words it: the instant at
  \<open>(h mod 24):MM:SS\<close> on the civil date \<open>h div 24\<close> days after the service date, composed
  with the offset found for that later date.
\<close>

definition specMaterialize :: "Env \<Rightarrow> civil \<Rightarrow> int \<Rightarrow> int \<Rightarrow> int \<Rightarrow> int" where
  "specMaterialize env serviceDate h mi se =
     (let actualDate = civil_from_days (days_from_civil serviceDate + h div 24)
      in days_from_civil actualDate * msPerDay + (h mod 24) * 3600000 + mi * 60000 + se * 1000
         - tzOffset env actualDate)"

section \<open>The calendar on known dates\<close>

text \<open>
  The calendar and the rule of the time zone on known dates: the epoch is Thursday
  1970-01-01; in 2026 daylight time runs from 2026-03-08 10:00 UTC (1772964000000) to
  2026-11-01 09:00 UTC (1793523600000).
\<close>

lemma calendar_known_dates:
  "days_from_civil (1970, 1, 1) = 0" "civil_from_days 0 = (1970, 1, 1)" "weekday 0 = 4"
  "days_from_civil (2026, 3, 8) = 20520" "civil_from_days 20520 = (2026, 3, 8)" "weekday 20520 = 0"
  "civil_from_days (days_from_civil (2024, 2, 28) + 1) = (2024, 2, 29)"
  "civil_from_days (days_from_civil (2025, 12, 31) + 1) = (2026, 1, 1)"
  by code_simp+

lemma pacific_rule_2026:
  "pdtStart 2026 = 1772964000000" "pdtEnd 2026 = 1793523600000"
  "\<not> ruleIsPDT 1772963999999" "ruleIsPDT 1772964000000" "ruleIsPDT 1793523599999" "\<not> ruleIsPDT 1793523600000"
  by code_simp+

section \<open>Properties of the real-time feed\<close>

lemma delayLoop_skipped:
  "\<exists>stop \<in> set stops. isSkipped stop \<Longrightarrow> snd (delayLoop stops m) = True"
  by (induction stops arbitrary: m) auto

text \<open>
  Claim C5. A trip update in which some stop-time update has the schedule relationship
  SKIPPED or CANCELED gets the status cancelled from \<open>calculateTripDelay\<close>, whatever the
  delay fields of its stop-time updates are.
\<close>

theorem calculateTripDelay_cancelled:
  assumes "\<exists>stop \<in> set (stopTimeUpdates update).
             scheduleRelationship stop = Some ''SKIPPED'' \<or>
             scheduleRelationship stop = Some ''CANCELED''"
  shows "\<exists>d. calculateTripDelay update = Some \<lparr>info_delay = d, info_status = Cancelled\<rparr>"
proof -
  from assms have sk: "\<exists>stop \<in> set (stopTimeUpdates update). isSkipped stop"
    by (simp add: isSkipped_def)
  then have ne: "stopTimeUpdates update \<noteq> []" by auto
  obtain mx c where loop: "delayLoop (stopTimeUpdates update) 0 = (mx, c)"
    by (cases "delayLoop (stopTimeUpdates update) 0")
  with delayLoop_skipped [OF sk, of 0] have "c = True" by simp
  with ne loop show ?thesis by (simp add: calculateTripDelay_def)
qed

theorem calculateTripDelay_cancelled_witness:
  "(\<exists>stop \<in> set (stopTimeUpdates
       \<lparr>TripUpdate.tripId = ''T1'', routeId = ''L1'', startDate = ''20260303'', startTime = ''08:00:00'',
        stopTimeUpdates =
          [\<lparr>stopId = ''70011'', stopSequence = 1, arrival = None,
            departure = Some \<lparr>delay = 900, time = 0\<rparr>, scheduleRelationship = None\<rparr>,
           \<lparr>stopId = ''70021'', stopSequence = 2, arrival = None,
            departure = Some \<lparr>delay = 120, time = 0\<rparr>,
            scheduleRelationship = Some ''SKIPPED''\<rparr>]\<rparr>).
      scheduleRelationship stop = Some ''SKIPPED'' \<or>
      scheduleRelationship stop = Some ''CANCELED'') \<and>
   (\<exists>d. calculateTripDelay
       \<lparr>TripUpdate.tripId = ''T1'', routeId = ''L1'', startDate = ''20260303'', startTime = ''08:00:00'',
        stopTimeUpdates =
          [\<lparr>stopId = ''70011'', stopSequence = 1, arrival = None,
            departure = Some \<lparr>delay = 900, time = 0\<rparr>, scheduleRelationship = None\<rparr>,
           \<lparr>stopId = ''70021'', stopSequence = 2, arrival = None,
            departure = Some \<lparr>delay = 120, time = 0\<rparr>,
            scheduleRelationship = Some ''SKIPPED''\<rparr>]\<rparr>
     = Some \<lparr>info_delay = d, info_status = Cancelled\<rparr>)"
  (is "?H \<and> ?C")
proof -
  have h: ?H by simp
  from calculateTripDelay_cancelled [OF h] have ?C .
  with h show ?thesis by (rule conjI)
qed

section \<open>Properties of the loop and of the entry point\<close>

lemma tripLoop_elem:
  "tripLoop env t tus alerts dir nb oid did ts acc = Inr trains \<Longrightarrow> train \<in> set trains \<Longrightarrow>
   train \<in> set acc \<or>
   (\<exists>trip \<in> set ts. \<exists>first. processTrip env t tus alerts dir nb oid did first trip = Inr (Some train))"
proof (induction ts arbitrary: acc)
  case Nil
  then show ?case by simp
next
  case (Cons trip rest)
  show ?case
  proof (cases "processTrip env t tus alerts dir nb oid did (acc = []) trip")
    case (Inl e)
    with Cons.prems show ?thesis by simp
  next
    case (Inr r)
    show ?thesis
    proof (cases r)
      case None
      with Inr Cons.prems have "tripLoop env t tus alerts dir nb oid did rest acc = Inr trains" by simp
      from Cons.IH [OF this Cons.prems(2)] show ?thesis by auto
    next
      case (Some tr)
      with Inr Cons.prems have "tripLoop env t tus alerts dir nb oid did rest (acc @ [tr]) = Inr trains" by simp
      from Cons.IH [OF this Cons.prems(2)] Inr Some show ?thesis by auto
    qed
  qed
qed

lemma getScheduledTrains_Inr:
  "\<exists>trains. getScheduledTrains env a b (Some t) tus alerts = Inr trains"
  by (simp add: getScheduledTrains_def split: sum.splits)

lemma getScheduledTrains_invalid_date:
  "getScheduledTrains env a b None tus alerts = Inl RangeError"
  by (simp add: getScheduledTrains_def)

lemma getScheduledTrains_returns:
  "getScheduledTrains env a b date' tus alerts = Inr trains \<Longrightarrow> \<exists>t. date' = Some t"
  by (cases date') (simp_all add: getScheduledTrains_def)

lemma getScheduledTrains_elem:
  assumes "getScheduledTrains env a b (Some t) tus alerts = Inr trains" and "train \<in> set trains"
  shows "\<exists>trip dir nb oid did first. trip \<in> set (trips (gtfsCache env)) \<and>
           processTrip env t tus alerts dir nb oid did first trip = Inr (Some train)"
proof -
  from assms have "getScheduledTrainsTry env a b t tus alerts = Inr trains"
    by (auto simp: getScheduledTrains_def split: sum.splits)
  with assms(2) obtain sid dir nb oid did ts where
    loop: "tripLoop env t tus alerts dir nb oid did
             (filter (\<lambda>trip. GTFSTrip.service_id trip = sid) (trips (gtfsCache env))) [] = Inr ts"
    and tr: "trains = take 5 (sort_key departureTime ts)"
    by (auto simp: getScheduledTrainsTry_def Let_def
        split: FetchOutcome.splits if_splits option.splits sum.splits)
  from tr assms(2) have "train \<in> set ts" by (auto dest: in_set_takeD)
  from tripLoop_elem [OF loop this] show ?thesis by simp blast
qed


lemma processTrip_Some:
  assumes "processTrip env t tus alerts dir nb oid did first trip = Inr (Some train)"
  shows "\<exists>originStop destStop dep arr.
           direction_id trip = dir \<and>
           find (\<lambda>st. GTFSStopTime.trip_id st = GTFSTrip.trip_id trip \<and> stop_id st = oid)
             (stopTimes (gtfsCache env)) = Some originStop \<and>
           find (\<lambda>st. GTFSStopTime.trip_id st = GTFSTrip.trip_id trip \<and> stop_id st = did)
             (stopTimes (gtfsCache env)) = Some destStop \<and>
           materialize env (pacificCivil env t) (tzOffset env (pacificCivil env t)) (departure_time originStop)
             = Inr (Some dep) \<and>
           materialize env (pacificCivil env t) (tzOffset env (pacificCivil env t)) (arrival_time destStop)
             = Inr (Some arr) \<and>
           included (fst (overlay tus alerts trip (Some dep) (Some arr)))
             (snd (overlay tus alerts trip (Some dep) (Some arr))) (Some dep) t \<and>
           train =
             \<lparr>trainNumber = (if trip_short_name trip \<noteq> [] then trip_short_name trip
                             else GTFSTrip.trip_id trip),
              tripId = GTFSTrip.trip_id trip,
              direction = (if nb then Northbound else Southbound),
              departureTime = dep,
              arrivalTime = arr,
              duration = Math_round_div (arr - dep) 60000,
              type' = trainTypeOf (tripStopCount (stopTimes (gtfsCache env)) trip)\<rparr>"
  using assms
  by (auto simp: processTrip_def Let_def split: if_splits option.splits sum.splits prod.splits)


section \<open>The small timetable, evaluated\<close>

lemma exampleEnv_sel:
  "fetchOutcome exampleEnv = FetchReturns True"
  "gtfsCache exampleEnv = exampleCache"
  "stations exampleEnv = exampleStations"
  "getStationById exampleEnv = (\<lambda>i. find (\<lambda>s. id' s = i) exampleStations)"
  "legacyDateParse exampleEnv = (\<lambda>s. None)"
  by (simp_all add: exampleEnv_def)

lemma exampleCache_sel:
  "stopTimes exampleCache =
        [\<lparr>GTFSStopTime.trip_id = ''T101'', arrival_time = ''08:00:00'', departure_time = ''08:00:00'',
          stop_id = ''70012'', stop_sequence = 1\<rparr>,
         \<lparr>GTFSStopTime.trip_id = ''T101'', arrival_time = ''08:45:00'', departure_time = ''08:45:00'',
          stop_id = ''70262'', stop_sequence = 2\<rparr>,
         \<lparr>GTFSStopTime.trip_id = ''T199'', arrival_time = ''27:30:00'', departure_time = ''27:30:00'',
          stop_id = ''70012'', stop_sequence = 1\<rparr>,
         \<lparr>GTFSStopTime.trip_id = ''T199'', arrival_time = ''28:15:00'', departure_time = ''28:15:00'',
          stop_id = ''70262'', stop_sequence = 2\<rparr>]"
  "trips exampleCache = [trip199, trip101]"
  "calendarDates exampleCache = []"
  by (simp_all add: exampleCache_def)

text \<open>The query instant 1772550000000 is Tuesday 2026-03-03 at 07:00 Pacific standard time.\<close>

lemma ex_civil: "pacificCivil exampleEnv 1772550000000 = (2026, 3, 3)"
  by code_simp

lemma ex_service:
  "getActiveServiceId exampleEnv 1772550000000 (calendar exampleCache) [] = Some ''WKDY''"
  by code_simp

lemma ex_tz: "tzOffset exampleEnv (2026, 3, 3) = - 28800000"
  by code_simp

lemma ex_mat_0800: "materialize exampleEnv (2026, 3, 3) (- 28800000) ''08:00:00'' = Inr (Some 1772553600000)"
  by code_simp

lemma ex_mat_0845: "materialize exampleEnv (2026, 3, 3) (- 28800000) ''08:45:00'' = Inr (Some 1772556300000)"
  by code_simp

lemma ex_mat_2730: "materialize exampleEnv (2026, 3, 3) (- 28800000) ''27:30:00'' = Inr (Some 1772623800000)"
  by code_simp

lemma ex_mat_2815: "materialize exampleEnv (2026, 3, 3) (- 28800000) ''28:15:00'' = Inr (Some 1772626500000)"
  by code_simp

lemma ex_stops:
  "findGTFSStopId exampleEnv ''SF'' ''1'' = ''70012''" "findGTFSStopId exampleEnv ''SJ'' ''1'' = ''70262''"
  by code_simp+

lemma ex_process101:
  "processTrip exampleEnv 1772550000000 [] [] ''1'' False ''70012'' ''70262'' first trip101 =
     Inr (Some train101)"
  by (simp add: processTrip_def exampleEnv_sel exampleCache_sel trip101_def ex_civil ex_tz
        ex_mat_0800 ex_mat_0845 Let_def train101_def
        overlay_def js_seq_def included_def js_lt_def Math_round_div_def
        trainTypeOf_def tripStopCount_def)

lemma ex_process199:
  "processTrip exampleEnv 1772550000000 [] [] ''1'' False ''70012'' ''70262'' first trip199 =
     Inr (Some train199)"
  by (simp add: processTrip_def exampleEnv_sel exampleCache_sel trip199_def ex_civil ex_tz
        ex_mat_2730 ex_mat_2815 Let_def train199_def
        overlay_def js_seq_def included_def js_lt_def Math_round_div_def
        trainTypeOf_def tripStopCount_def)

lemma exampleTrip_service:
  "GTFSTrip.service_id trip101 = ''WKDY''" "GTFSTrip.service_id trip199 = ''WKDY''"
  by (simp_all add: trip101_def trip199_def)

lemma exampleTrain_departure:
  "departureTime train101 = 1772553600000" "departureTime train199 = 1772623800000"
  by (simp_all add: train101_def train199_def)

lemma ex_run:
  "getScheduledTrains exampleEnv ''sf'' ''sj'' (Some 1772550000000) [] [] =
     Inr [train101, train199]"
  by (simp add: getScheduledTrains_def getScheduledTrainsTry_def exampleEnv_sel exampleCache_sel
        ex_service exampleStations_def findIndex_def ex_stops Let_def ex_process101 ex_process199
        exampleTrip_service exampleTrain_departure)


section \<open>Classification, ordering, failure and frame properties of the entry point\<close>

text \<open>
  Claim C7. The type of every train in the result is decided by the number of stop-time
  rows that carry its trip id alone: 20 or more rows give Local, 13 to 19 Limited, fewer
  than 13 Express; 20 rows are Local, 19 Limited and 12 Express.
\<close>

theorem train_type_by_stop_count:
  assumes "getScheduledTrains env a b queryDate tus alerts = Inr trains" and "train \<in> set trains"
  shows "(let n = length (filter (\<lambda>st. GTFSStopTime.trip_id st = tripId train) (stopTimes (gtfsCache env)))
          in (20 \<le> n \<longrightarrow> type' train = Local) \<and>
             (13 \<le> n \<and> n \<le> 19 \<longrightarrow> type' train = Limited) \<and>
             (n < 13 \<longrightarrow> type' train = Express)) \<and>
         trainTypeOf 20 = Local \<and> trainTypeOf 19 = Limited \<and> trainTypeOf 12 = Express"
proof -
  from getScheduledTrains_returns [OF assms(1)] obtain t where "queryDate = Some t" by blast
  with assms(1) have "getScheduledTrains env a b (Some t) tus alerts = Inr trains" by simp
  from getScheduledTrains_elem [OF this assms(2)] obtain trip dir nb oid did first where
    "processTrip env t tus alerts dir nb oid did first trip = Inr (Some train)" by blast
  from processTrip_Some [OF this] have
    "tripId train = GTFSTrip.trip_id trip"
    "type' train = trainTypeOf (tripStopCount (stopTimes (gtfsCache env)) trip)"
    by auto
  then show ?thesis by (simp add: tripStopCount_def trainTypeOf_def Let_def)
qed

theorem train_type_by_stop_count_witness:
  "getScheduledTrains exampleEnv ''sf'' ''sj'' (Some 1772550000000) [] [] = Inr [train101, train199] \<and>
   train101 \<in> set [train101, train199] \<and>
   length (filter (\<lambda>st. GTFSStopTime.trip_id st = tripId train101) (stopTimes (gtfsCache exampleEnv))) = 2 \<and>
   type' train101 = Express"
proof -
  have m: "train101 \<in> set [train101, train199]" by simp
  have n: "length (filter (\<lambda>st. GTFSStopTime.trip_id st = tripId train101)
             (stopTimes (gtfsCache exampleEnv))) = 2"
    by (simp add: exampleEnv_sel exampleCache_sel train101_def)
  from train_type_by_stop_count [OF ex_run m] n have "type' train101 = Express"
    by (simp add: Let_def)
  with ex_run m n show ?thesis by simp
qed

text \<open>
  Claim C8. For every input with a valid query date the entry point returns at most 5
  trains, in ascending order of \<open>departureTime\<close>: for all positions \<open>i < j\<close> of the result
  the departure time at \<open>i\<close> is at most the one at \<open>j\<close>. The \<open>departureTime\<close> of each train
  is the materialized scheduled departure of a trip at its origin stop, in which no delay
  takes part. With an Invalid Date nothing is returned.
\<close>

theorem result_sorted_bounded:
  "(\<exists>trains. getScheduledTrains env a b (Some t) tus alerts = Inr trains \<and> length trains \<le> 5 \<and>
     sorted (map departureTime trains) \<and>
     (\<forall>i j. i < j \<and> j < length trains \<longrightarrow>
        departureTime (trains ! i) \<le> departureTime (trains ! j)) \<and>
     (\<forall>train \<in> set trains. \<exists>trip oid originStop.
         trip \<in> set (trips (gtfsCache env)) \<and>
         find (\<lambda>st. GTFSStopTime.trip_id st = GTFSTrip.trip_id trip \<and> stop_id st = oid)
           (stopTimes (gtfsCache env)) = Some originStop \<and>
         materialize env (pacificCivil env t) (tzOffset env (pacificCivil env t)) (departure_time originStop)
           = Inr (Some (departureTime train)))) \<and>
   getScheduledTrains env a b None tus alerts = Inl RangeError"
proof -
  obtain trains where r: "getScheduledTrains env a b (Some t) tus alerts = Inr trains"
    using getScheduledTrains_Inr by blast
  have len: "length trains \<le> 5 \<and> sorted (map departureTime trains)"
    using r
    by (auto simp: getScheduledTrains_def getScheduledTrainsTry_def Let_def take_map [symmetric]
          sorted_wrt_take split: FetchOutcome.splits if_splits option.splits sum.splits)
  have "\<exists>trip oid originStop.
         trip \<in> set (trips (gtfsCache env)) \<and>
         find (\<lambda>st. GTFSStopTime.trip_id st = GTFSTrip.trip_id trip \<and> stop_id st = oid)
           (stopTimes (gtfsCache env)) = Some originStop \<and>
         materialize env (pacificCivil env t) (tzOffset env (pacificCivil env t)) (departure_time originStop)
           = Inr (Some (departureTime train))" if "train \<in> set trains" for train
  proof -
    from getScheduledTrains_elem [OF r that] obtain trip dir nb oid did first where
      tr: "trip \<in> set (trips (gtfsCache env))" and
      p: "processTrip env t tus alerts dir nb oid did first trip = Inr (Some train)" by blast
    from processTrip_Some [OF p] obtain originStop dep where
      f: "find (\<lambda>st. GTFSStopTime.trip_id st = GTFSTrip.trip_id trip \<and> stop_id st = oid)
            (stopTimes (gtfsCache env)) = Some originStop" and
      m: "materialize env (pacificCivil env t) (tzOffset env (pacificCivil env t)) (departure_time originStop)
            = Inr (Some dep)" and
      d: "departureTime train = dep" by auto
    from tr f m d show ?thesis by blast
  qed
  moreover have "departureTime (trains ! i) \<le> departureTime (trains ! j)"
    if "i < j \<and> j < length trains" for i j
  proof -
    from that have "map departureTime trains ! i \<le> map departureTime trains ! j"
      using len by (auto simp: sorted_iff_nth_mono_less simp del: nth_map)
    with that show ?thesis by simp
  qed
  ultimately have "\<exists>trains. getScheduledTrains env a b (Some t) tus alerts = Inr trains \<and>
     length trains \<le> 5 \<and> sorted (map departureTime trains) \<and>
     (\<forall>i j. i < j \<and> j < length trains \<longrightarrow>
        departureTime (trains ! i) \<le> departureTime (trains ! j)) \<and>
     (\<forall>train \<in> set trains. \<exists>trip oid originStop.
         trip \<in> set (trips (gtfsCache env)) \<and>
         find (\<lambda>st. GTFSStopTime.trip_id st = GTFSTrip.trip_id trip \<and> stop_id st = oid)
           (stopTimes (gtfsCache env)) = Some originStop \<and>
         materialize env (pacificCivil env t) (tzOffset env (pacificCivil env t)) (departure_time originStop)
           = Inr (Some (departureTime train)))"
    using r len by blast
  then show ?thesis using getScheduledTrains_invalid_date by blast
qed


theorem result_sorted_bounded_witness:
  "getScheduledTrains exampleEnv ''sf'' ''sj'' (Some 1772550000000) [] [] = Inr [train101, train199] \<and>
   length [train101, train199] \<le> 5 \<and>
   map departureTime [train101, train199] = [1772553600000, 1772623800000] \<and>
   sorted (map departureTime [train101, train199]) \<and>
   departureTime ([train101, train199] ! 0) \<le> departureTime ([train101, train199] ! 1) \<and>
   (\<exists>trip oid originStop.
       trip \<in> set (trips (gtfsCache exampleEnv)) \<and>
       find (\<lambda>st. GTFSStopTime.trip_id st = GTFSTrip.trip_id trip \<and> stop_id st = oid)
         (stopTimes (gtfsCache exampleEnv)) = Some originStop \<and>
       materialize exampleEnv (pacificCivil exampleEnv 1772550000000)
         (tzOffset exampleEnv (pacificCivil exampleEnv 1772550000000)) (departure_time originStop)
         = Inr (Some (departureTime train101)))"
proof -
  from result_sorted_bounded [of exampleEnv "''sf''" "''sj''" 1772550000000 "[]" "[]",
      THEN conjunct1]
  obtain trains where
    r: "getScheduledTrains exampleEnv ''sf'' ''sj'' (Some 1772550000000) [] [] = Inr trains" and
    l: "length trains \<le> 5" and s: "sorted (map departureTime trains)" and
    n: "\<forall>i j. i < j \<and> j < length trains \<longrightarrow>
        departureTime (trains ! i) \<le> departureTime (trains ! j)" and
    b: "\<forall>train \<in> set trains. \<exists>trip oid originStop.
         trip \<in> set (trips (gtfsCache exampleEnv)) \<and>
         find (\<lambda>st. GTFSStopTime.trip_id st = GTFSTrip.trip_id trip \<and> stop_id st = oid)
           (stopTimes (gtfsCache exampleEnv)) = Some originStop \<and>
         materialize exampleEnv (pacificCivil exampleEnv 1772550000000)
           (tzOffset exampleEnv (pacificCivil exampleEnv 1772550000000)) (departure_time originStop)
           = Inr (Some (departureTime train))"
    by blast
  from r ex_run have eq: "trains = [train101, train199]" by simp
  have d: "map departureTime [train101, train199] = [1772553600000, 1772623800000]"
    by (simp add: exampleTrain_departure)
  from b eq have "\<exists>trip oid originStop.
       trip \<in> set (trips (gtfsCache exampleEnv)) \<and>
       find (\<lambda>st. GTFSStopTime.trip_id st = GTFSTrip.trip_id trip \<and> stop_id st = oid)
         (stopTimes (gtfsCache exampleEnv)) = Some originStop \<and>
       materialize exampleEnv (pacificCivil exampleEnv 1772550000000)
         (tzOffset exampleEnv (pacificCivil exampleEnv 1772550000000)) (departure_time originStop)
         = Inr (Some (departureTime train101))"
    by simp
  moreover have "departureTime ([train101, train199] ! 0) \<le>
      departureTime ([train101, train199] ! 1)"
  proof -
    from n have "(0::nat) < 1 \<and> 1 < length trains \<longrightarrow>
        departureTime (trains ! 0) \<le> departureTime (trains ! 1)" by blast
    with eq show ?thesis by simp
  qed
  ultimately show ?thesis using ex_run l s d eq by simp
qed

text \<open>
  Claim C9 holds for every valid query date and fails for an Invalid Date. The outer \<open>try\<close>
  opens at line 518; the attributes of the tracing span are computed before it, at lines
  508 to 516, and \<open>date.toISOString()\<close> among them raises a \<open>RangeError\<close> on an Invalid
  Date. Whatever the environment, the stations, the feed and the scraped delays are, the
  entry point then raises instead of returning a list.
\<close>

theorem invalid_date_raises:
  "getScheduledTrains env a b None tus alerts = Inl RangeError"
  by (simp add: getScheduledTrains_def)

text \<open>
  With a valid query date the entry point returns a list and raises nothing; the list is
  empty when the data set could not be fetched (the fetch returns false, or raises) or has
  no trips, when the origin or the destination station is unknown, and when no service is
  active on the date.
\<close>

lemma valid_date_returns_list:
  "(\<exists>trains. getScheduledTrains env a b (Some t) tus alerts = Inr trains) \<and>
   (fetchOutcome env = FetchThrows \<or> fetchOutcome env = FetchReturns False \<or>
    trips (gtfsCache env) = [] \<or>
    getStationById env a = None \<or> getStationById env b = None \<or>
    getActiveServiceId env t (calendar (gtfsCache env)) (calendarDates (gtfsCache env)) = None \<or>
    getActiveServiceId env t (calendar (gtfsCache env)) (calendarDates (gtfsCache env)) = Some []
    \<longrightarrow> getScheduledTrains env a b (Some t) tus alerts = Inr [])"
proof (intro conjI impI)
  show "\<exists>trains. getScheduledTrains env a b (Some t) tus alerts = Inr trains"
    by (rule getScheduledTrains_Inr)
next
  assume "fetchOutcome env = FetchThrows \<or> fetchOutcome env = FetchReturns False \<or>
    trips (gtfsCache env) = [] \<or>
    getStationById env a = None \<or> getStationById env b = None \<or>
    getActiveServiceId env t (calendar (gtfsCache env)) (calendarDates (gtfsCache env)) = None \<or>
    getActiveServiceId env t (calendar (gtfsCache env)) (calendarDates (gtfsCache env)) = Some []"
  then show "getScheduledTrains env a b (Some t) tus alerts = Inr []"
    by (auto simp: getScheduledTrains_def getScheduledTrainsTry_def
        split: FetchOutcome.splits option.splits sum.splits)
qed

lemma unknown_station_example:
  "getStationById exampleEnv ''nowhere'' = None \<and>
   getScheduledTrains exampleEnv ''sf'' ''nowhere'' (Some 1772550000000) [] [] = Inr []"
proof -
  have h: "getStationById exampleEnv ''nowhere'' = None"
    by (simp add: exampleEnv_sel exampleStations_def)
  with valid_date_returns_list [of exampleEnv "''sf''" "''nowhere''" 1772550000000 "[]" "[]"]
  show ?thesis by simp
qed

text \<open>
  Claim C10. Every train in the result carries the scheduled instants: its
  \<open>departureTime\<close> and \<open>arrivalTime\<close> are the materialized stop times of its trip at the
  origin and the destination stop, and its \<open>duration\<close> is their difference in minutes,
  whatever the feed and the scraped delays are. The overlay decides inclusion only: without
  feed and scraped delays the same trip gives the same record, or is skipped.
\<close>

theorem output_is_scheduled:
  assumes "getScheduledTrains env a b queryDate tus alerts = Inr trains" and "train \<in> set trains"
  shows "\<exists>t trip dir nb oid did first originStop destStop dep arr.
           queryDate = Some t \<and>
           trip \<in> set (trips (gtfsCache env)) \<and>
           find (\<lambda>st. GTFSStopTime.trip_id st = GTFSTrip.trip_id trip \<and> stop_id st = oid)
             (stopTimes (gtfsCache env)) = Some originStop \<and>
           find (\<lambda>st. GTFSStopTime.trip_id st = GTFSTrip.trip_id trip \<and> stop_id st = did)
             (stopTimes (gtfsCache env)) = Some destStop \<and>
           materialize env (pacificCivil env t) (tzOffset env (pacificCivil env t)) (departure_time originStop)
             = Inr (Some dep) \<and>
           materialize env (pacificCivil env t) (tzOffset env (pacificCivil env t)) (arrival_time destStop)
             = Inr (Some arr) \<and>
           tripId train = GTFSTrip.trip_id trip \<and>
           departureTime train = dep \<and> arrivalTime train = arr \<and>
           duration train = Math_round_div (arr - dep) 60000 \<and>
           processTrip env t tus alerts dir nb oid did first trip = Inr (Some train) \<and>
           (\<forall>first'. processTrip env t [] [] dir nb oid did first' trip = Inr (Some train) \<or>
                    processTrip env t [] [] dir nb oid did first' trip = Inr None)"
proof -
  from getScheduledTrains_returns [OF assms(1)] obtain t where qd: "queryDate = Some t" by blast
  with assms(1) have r: "getScheduledTrains env a b (Some t) tus alerts = Inr trains" by simp
  from getScheduledTrains_elem [OF r assms(2)] obtain trip dir nb oid did first where
    tr: "trip \<in> set (trips (gtfsCache env))" and
    p: "processTrip env t tus alerts dir nb oid did first trip = Inr (Some train)" by blast
  from processTrip_Some [OF p] obtain originStop destStop dep arr where
    d: "direction_id trip = dir" and
    fo: "find (\<lambda>st. GTFSStopTime.trip_id st = GTFSTrip.trip_id trip \<and> stop_id st = oid)
             (stopTimes (gtfsCache env)) = Some originStop" and
    fd: "find (\<lambda>st. GTFSStopTime.trip_id st = GTFSTrip.trip_id trip \<and> stop_id st = did)
             (stopTimes (gtfsCache env)) = Some destStop" and
    md: "materialize env (pacificCivil env t) (tzOffset env (pacificCivil env t)) (departure_time originStop)
             = Inr (Some dep)" and
    ma: "materialize env (pacificCivil env t) (tzOffset env (pacificCivil env t)) (arrival_time destStop)
             = Inr (Some arr)" and
    tn: "train =
             \<lparr>trainNumber = (if trip_short_name trip \<noteq> [] then trip_short_name trip
                             else GTFSTrip.trip_id trip),
              tripId = GTFSTrip.trip_id trip,
              direction = (if nb then Northbound else Southbound),
              departureTime = dep,
              arrivalTime = arr,
              duration = Math_round_div (arr - dep) 60000,
              type' = trainTypeOf (tripStopCount (stopTimes (gtfsCache env)) trip)\<rparr>"
    by blast
  have fields: "tripId train = GTFSTrip.trip_id trip \<and> departureTime train = dep \<and>
      arrivalTime train = arr \<and> duration train = Math_round_div (arr - dep) 60000"
    by (simp add: tn)
  have plain: "\<forall>first'. processTrip env t [] [] dir nb oid did first' trip = Inr (Some train) \<or>
                      processTrip env t [] [] dir nb oid did first' trip = Inr None"
    using d fo fd md ma tn by (simp add: processTrip_def Let_def overlay_def)
  show ?thesis
    by (intro exI [of _ t] exI [of _ trip] exI [of _ dir] exI [of _ nb] exI [of _ oid]
          exI [of _ did] exI [of _ first] exI [of _ originStop] exI [of _ destStop]
          exI [of _ dep] exI [of _ arr] conjI)
       (use qd tr fo fd md ma fields p plain in simp_all)
qed

section \<open>The inclusion test\<close>


lemma ex2_civil: "pacificCivil exampleEnv 1772554800000 = (2026, 3, 3)"
  by code_simp

lemma ex2_service:
  "getActiveServiceId exampleEnv 1772554800000 (calendar exampleCache) [] = Some ''WKDY''"
  by code_simp

lemma ex_feed13:
  "getTripDelay [feedLate13] ''T101'' None = Some \<lparr>info_delay = 13, info_status = Delayed\<rparr>"
  "getTripDelay [feedLate13] ''T199'' None = None"
  by (simp_all add: getTripDelay_def feedLate13_def calculateTripDelay_def isSkipped_def
        stopDelay_def Math_round_div_def)

lemma exampleTrip_sel:
  "GTFSTrip.trip_id trip101 = ''T101''" "GTFSTrip.trip_id trip199 = ''T199''"
  "trip_short_name trip101 = ''101''" "trip_short_name trip199 = ''199''"
  "direction_id trip101 = ''1''" "direction_id trip199 = ''1''"
  by (simp_all add: trip101_def trip199_def)

lemma ex_overlay13:
  "overlay [feedLate13] [] trip101 (Some 1772553600000) (Some 1772556300000) =
     (Some 1772554380000, Some 1772557080000)"
  by (simp add: overlay_def exampleTrip_sel ex_feed13 js_add_def js_seq_def)


lemma ex_find101:
  "find (\<lambda>st. GTFSStopTime.trip_id st = GTFSTrip.trip_id trip101 \<and> stop_id st = ''70012'')
     (stopTimes (gtfsCache exampleEnv)) =
   Some \<lparr>GTFSStopTime.trip_id = ''T101'', arrival_time = ''08:00:00'', departure_time = ''08:00:00'',
          stop_id = ''70012'', stop_sequence = 1\<rparr>"
  "find (\<lambda>st. GTFSStopTime.trip_id st = GTFSTrip.trip_id trip101 \<and> stop_id st = ''70262'')
     (stopTimes (gtfsCache exampleEnv)) =
   Some \<lparr>GTFSStopTime.trip_id = ''T101'', arrival_time = ''08:45:00'', departure_time = ''08:45:00'',
          stop_id = ''70262'', stop_sequence = 2\<rparr>"
  by (simp_all add: exampleEnv_sel exampleCache_sel exampleTrip_sel)



section \<open>The frame property on a delayed train\<close>

lemma ex2_process101:
  "processTrip exampleEnv 1772554800000 [feedLate13] [] ''1'' False ''70012'' ''70262'' first trip101 =
     Inr (Some train101)"
  by (simp add: processTrip_def ex_find101 exampleTrip_sel ex2_civil ex_tz ex_mat_0800 ex_mat_0845
        Let_def ex_overlay13 [unfolded exampleTrip_sel] overlay_def ex_feed13 js_add_def js_seq_def
        included_def js_lt_def hasDelay_def Math_round_div_def trainTypeOf_def tripStopCount_def
        exampleEnv_sel exampleCache_sel train101_def)

lemma ex2_process199:
  "processTrip exampleEnv 1772554800000 [feedLate13] [] ''1'' False ''70012'' ''70262'' first trip199 =
     Inr (Some train199)"
  by (simp add: processTrip_def exampleTrip_sel ex2_civil ex_tz ex_mat_2730 ex_mat_2815
        Let_def overlay_def ex_feed13 js_add_def js_seq_def
        included_def js_lt_def hasDelay_def Math_round_div_def trainTypeOf_def tripStopCount_def
        exampleEnv_sel exampleCache_sel train199_def)

lemma ex2_run:
  "getScheduledTrains exampleEnv ''sf'' ''sj'' (Some 1772554800000) [feedLate13] [] = Inr [train101, train199]"
  by (simp add: getScheduledTrains_def getScheduledTrainsTry_def exampleEnv_sel exampleCache_sel
        ex2_service exampleStations_def findIndex_def ex_stops Let_def ex2_process101 ex2_process199
        exampleTrip_service exampleTrain_departure)

theorem output_is_scheduled_witness:
  "getScheduledTrains exampleEnv ''sf'' ''sj'' (Some 1772554800000) [feedLate13] [] = Inr [train101, train199] \<and>
   train101 \<in> set [train101, train199] \<and>
   materialize exampleEnv (pacificCivil exampleEnv 1772554800000) (tzOffset exampleEnv (pacificCivil exampleEnv 1772554800000))
     ''08:00:00'' = Inr (Some 1772553600000) \<and>
   overlay [feedLate13] [] trip101 (Some 1772553600000) (Some 1772556300000) =
     (Some 1772554380000, Some 1772557080000) \<and>
   departureTime train101 = 1772553600000 \<and> arrivalTime train101 = 1772556300000 \<and>
   duration train101 = 45 \<and>
   (\<exists>t trip dir nb oid did first originStop destStop dep arr.
           Some 1772554800000 = Some t \<and>
           trip \<in> set (trips (gtfsCache exampleEnv)) \<and>
           find (\<lambda>st. GTFSStopTime.trip_id st = GTFSTrip.trip_id trip \<and> stop_id st = oid)
             (stopTimes (gtfsCache exampleEnv)) = Some originStop \<and>
           find (\<lambda>st. GTFSStopTime.trip_id st = GTFSTrip.trip_id trip \<and> stop_id st = did)
             (stopTimes (gtfsCache exampleEnv)) = Some destStop \<and>
           materialize exampleEnv (pacificCivil exampleEnv t)
             (tzOffset exampleEnv (pacificCivil exampleEnv t)) (departure_time originStop)
             = Inr (Some dep) \<and>
           materialize exampleEnv (pacificCivil exampleEnv t)
             (tzOffset exampleEnv (pacificCivil exampleEnv t)) (arrival_time destStop)
             = Inr (Some arr) \<and>
           tripId train101 = GTFSTrip.trip_id trip \<and>
           departureTime train101 = dep \<and> arrivalTime train101 = arr \<and>
           duration train101 = Math_round_div (arr - dep) 60000 \<and>
           processTrip exampleEnv t [feedLate13] [] dir nb oid did first trip = Inr (Some train101) \<and>
           (\<forall>first'. processTrip exampleEnv t [] [] dir nb oid did first' trip = Inr (Some train101) \<or>
                    processTrip exampleEnv t [] [] dir nb oid did first' trip = Inr None))"
proof -
  have m: "train101 \<in> set [train101, train199]" by simp
  have md: "materialize exampleEnv (pacificCivil exampleEnv 1772554800000)
      (tzOffset exampleEnv (pacificCivil exampleEnv 1772554800000)) ''08:00:00'' = Inr (Some 1772553600000)"
    by (simp add: ex2_civil ex_tz ex_mat_0800)
  have f: "departureTime train101 = 1772553600000 \<and> arrivalTime train101 = 1772556300000 \<and>
      duration train101 = 45"
    by (simp add: train101_def)
  from output_is_scheduled [OF ex2_run m] ex2_run m md f ex_overlay13 show ?thesis
    by (intro conjI) simp_all
qed


section \<open>The delay overlay\<close>

text \<open>
  Claim C4. When the feed yields nothing for the trip (\<open>getTripDelay\<close> returns \<open>null\<close>) or a
  delay of zero minutes, and the scraped delays have an entry under the trip's short name,
  the overlay adds that entry's minutes to the scheduled departure and to the scheduled
  arrival alike.
\<close>

theorem scraped_fallback:
  assumes "getTripDelay tus (GTFSTrip.trip_id trip) None = None \<or>
           (\<exists>info. getTripDelay tus (GTFSTrip.trip_id trip) None = Some info \<and> info_delay info = 0)"
    and "map_of alerts (trip_short_name trip) = Some alertDelay"
  shows "overlay tus alerts trip (Some dep) (Some arr) =
           (Some (dep + delayMinutes alertDelay * 60 * 1000),
            Some (arr + delayMinutes alertDelay * 60 * 1000))"
proof -
  from assms(2) have ne: "alerts \<noteq> []" by auto
  from assms(1) have feed:
    "(if tus \<noteq> [] then
        (case getTripDelay tus (GTFSTrip.trip_id trip) None of
           None \<Rightarrow> (Some dep, Some arr)
         | Some delayInfo \<Rightarrow>
             if info_delay delayInfo \<noteq> 0
             then (js_add (Some dep) (info_delay delayInfo * 60 * 1000),
                   js_add (Some arr) (info_delay delayInfo * 60 * 1000))
             else (Some dep, Some arr))
      else (Some dep, Some arr)) = (Some dep, Some arr)"
    by auto
  show ?thesis
    unfolding overlay_def Let_def feed
    using ne assms(2) by (simp add: js_seq_def js_add_def)
qed

lemma ex_feed20s:
  "getTripDelay [feedLate20s] ''T101'' None = Some \<lparr>info_delay = 0, info_status = OnTime\<rparr>"
  by (simp add: getTripDelay_def feedLate20s_def calculateTripDelay_def isSkipped_def
        stopDelay_def Math_round_div_def)

theorem scraped_fallback_witness:
  "(getTripDelay [feedLate20s] (GTFSTrip.trip_id trip101) None = None \<or>
    (\<exists>info. getTripDelay [feedLate20s] (GTFSTrip.trip_id trip101) None = Some info \<and>
            info_delay info = 0)) \<and>
   map_of alerts5 (trip_short_name trip101) = Some \<lparr>trainShortName = ''101'', delayMinutes = 5\<rparr> \<and>
   overlay [feedLate20s] alerts5 trip101 (Some 1772553600000) (Some 1772556300000) =
     (Some 1772553900000, Some 1772556600000)"
proof -
  have h1: "getTripDelay [feedLate20s] (GTFSTrip.trip_id trip101) None = None \<or>
    (\<exists>info. getTripDelay [feedLate20s] (GTFSTrip.trip_id trip101) None = Some info \<and>
            info_delay info = 0)"
    by (simp add: exampleTrip_sel ex_feed20s)
  have h2: "map_of alerts5 (trip_short_name trip101) = Some \<lparr>trainShortName = ''101'', delayMinutes = 5\<rparr>"
    by (simp add: alerts5_def exampleTrip_sel)
  from scraped_fallback [OF h1 h2, of 1772553600000 1772556300000] h1 h2 show ?thesis by simp
qed


lemma delayLoop_max:
  assumes "\<forall>stop \<in> set stops. \<not> isSkipped stop"
  shows "snd (delayLoop stops m0) = False \<and>
         (fst (delayLoop stops m0) = m0 \<or> fst (delayLoop stops m0) \<in> stopDelay ` set stops) \<and>
         \<bar>m0\<bar> \<le> \<bar>fst (delayLoop stops m0)\<bar> \<and>
         (\<forall>stop \<in> set stops. \<bar>stopDelay stop\<bar> \<le> \<bar>fst (delayLoop stops m0)\<bar>)"
  using assms
proof (induction stops arbitrary: m0)
  case Nil
  then show ?case by simp
next
  case (Cons stop rest)
  let ?m1 = "if \<bar>stopDelay stop\<bar> > \<bar>m0\<bar> then stopDelay stop else m0"
  from Cons.prems have ns: "\<not> isSkipped stop" and rest: "\<forall>s \<in> set rest. \<not> isSkipped s" by auto
  from ns have step: "delayLoop (stop # rest) m0 = delayLoop rest ?m1" by simp
  note ih = Cons.IH [OF rest, of ?m1]
  have a: "\<bar>m0\<bar> \<le> \<bar>?m1\<bar>" and b: "\<bar>stopDelay stop\<bar> \<le> \<bar>?m1\<bar>" by auto
  have c: "?m1 = m0 \<or> ?m1 = stopDelay stop" by auto
  from ih a b c show ?case
    unfolding step by (auto simp del: delayLoop.simps)
qed

lemma Math_round_div_60_nearest: "\<bar>60 * Math_round_div m 60 - m\<bar> \<le> 30"
  unfolding Math_round_div_def by presburger

text \<open>
  Claim C3, as amended. For a trip whose id has an exact match in the feed, the matching
  update having at least one stop-time update and none that is skipped or cancelled: the
  delay that \<open>getTripDelay\<close> returns is the per-stop delay of largest magnitude, in minutes
  rounded to the nearest minute; and when that delay is not zero, or the scraped delays have
  no entry under the trip's short name, it is added to the scheduled departure and to the
  scheduled arrival alike, \<open>hasDelay\<close> being true exactly when it is not zero.
\<close>

theorem feed_delay_overlay:
  assumes "find (\<lambda>update. TripUpdate.tripId update = GTFSTrip.trip_id trip) tus = Some update"
    and "stopTimeUpdates update \<noteq> []"
    and "\<forall>stop \<in> set (stopTimeUpdates update).
           scheduleRelationship stop \<noteq> Some ''SKIPPED'' \<and> scheduleRelationship stop \<noteq> Some ''CANCELED''"
  shows "\<exists>m. m \<in> stopDelay ` set (stopTimeUpdates update) \<and>
           (\<forall>stop \<in> set (stopTimeUpdates update). \<bar>stopDelay stop\<bar> \<le> \<bar>m\<bar>) \<and>
           map_option info_delay (getTripDelay tus (GTFSTrip.trip_id trip) None)
             = Some (Math_round_div m 60) \<and>
           \<bar>60 * Math_round_div m 60 - m\<bar> \<le> 30 \<and>
           (Math_round_div m 60 \<noteq> 0 \<or> map_of alerts (trip_short_name trip) = None \<longrightarrow>
              overlay tus alerts trip (Some dep) (Some arr) =
                (Some (dep + Math_round_div m 60 * 60 * 1000),
                 Some (arr + Math_round_div m 60 * 60 * 1000)) \<and>
              (hasDelay (Some (dep + Math_round_div m 60 * 60 * 1000)) (Some dep)
                 \<longleftrightarrow> Math_round_div m 60 \<noteq> 0))"
proof -
  let ?stops = "stopTimeUpdates update"
  let ?m = "fst (delayLoop ?stops 0)"
  let ?d = "Math_round_div ?m 60"
  from assms(3) have ns: "\<forall>stop \<in> set ?stops. \<not> isSkipped stop"
    by (simp add: isSkipped_def)
  note mx = delayLoop_max [OF ns, of 0]
  from mx have bound: "\<forall>stop \<in> set ?stops. \<bar>stopDelay stop\<bar> \<le> \<bar>?m\<bar>" by blast
  have mem: "?m \<in> stopDelay ` set ?stops"
  proof (cases "?m = 0")
    case True
    from assms(2) obtain stop where s: "stop \<in> set ?stops" by (cases ?stops) auto
    with bound True have "stopDelay stop = 0" by auto
    with s True show ?thesis by force
  next
    case False
    with mx show ?thesis by auto
  qed
  from assms(1) have tne: "tus \<noteq> []" by auto
  have calc: "map_option info_delay (calculateTripDelay update) = Some ?d"
    using assms(2) by (simp add: calculateTripDelay_def Let_def split: prod.splits)
  with assms(1) have g: "map_option info_delay (getTripDelay tus (GTFSTrip.trip_id trip) None) = Some ?d"
    by (simp add: getTripDelay_def)
  then obtain info where gi: "getTripDelay tus (GTFSTrip.trip_id trip) None = Some info"
    and di: "info_delay info = ?d" by auto
  have ov: "overlay tus alerts trip (Some dep) (Some arr) =
                (Some (dep + ?d * 60 * 1000), Some (arr + ?d * 60 * 1000)) \<and>
            (hasDelay (Some (dep + ?d * 60 * 1000)) (Some dep) \<longleftrightarrow> ?d \<noteq> 0)"
    if "?d \<noteq> 0 \<or> map_of alerts (trip_short_name trip) = None"
  proof -
    have feed: "(if tus \<noteq> [] then
        (case getTripDelay tus (GTFSTrip.trip_id trip) None of
           None \<Rightarrow> (Some dep, Some arr)
         | Some delayInfo \<Rightarrow>
             if info_delay delayInfo \<noteq> 0
             then (js_add (Some dep) (info_delay delayInfo * 60 * 1000),
                   js_add (Some arr) (info_delay delayInfo * 60 * 1000))
             else (Some dep, Some arr))
      else (Some dep, Some arr)) = (Some (dep + ?d * 60 * 1000), Some (arr + ?d * 60 * 1000))"
      using tne gi di by (simp add: js_add_def)
    have "overlay tus alerts trip (Some dep) (Some arr) =
                (Some (dep + ?d * 60 * 1000), Some (arr + ?d * 60 * 1000))"
      unfolding overlay_def Let_def feed using that
      by (auto simp: js_seq_def)
    moreover have "hasDelay (Some (dep + ?d * 60 * 1000)) (Some dep) \<longleftrightarrow> ?d \<noteq> 0"
      by (simp add: hasDelay_def js_seq_def)
    ultimately show ?thesis by simp
  qed
  show ?thesis
  proof (intro exI [of _ ?m] conjI)
    show "?m \<in> stopDelay ` set ?stops" by (rule mem)
    show "\<forall>stop \<in> set ?stops. \<bar>stopDelay stop\<bar> \<le> \<bar>?m\<bar>" by (rule bound)
    show "map_option info_delay (getTripDelay tus (GTFSTrip.trip_id trip) None) = Some ?d" by (rule g)
    show "\<bar>60 * ?d - ?m\<bar> \<le> 30" by (rule Math_round_div_60_nearest)
    show "?d \<noteq> 0 \<or> map_of alerts (trip_short_name trip) = None \<longrightarrow>
              overlay tus alerts trip (Some dep) (Some arr) =
                (Some (dep + ?d * 60 * 1000), Some (arr + ?d * 60 * 1000)) \<and>
              (hasDelay (Some (dep + ?d * 60 * 1000)) (Some dep) \<longleftrightarrow> ?d \<noteq> 0)"
      using ov by blast
  qed
qed

lemma exampleFeed_tripId:
  "TripUpdate.tripId feedLate13 = ''T101''" "TripUpdate.tripId feedLate20s = ''T101''"
  by (simp_all add: feedLate13_def feedLate20s_def)

lemma feedLate13_stops:
  "find (\<lambda>update. TripUpdate.tripId update = GTFSTrip.trip_id trip101) [feedLate13] = Some feedLate13"
  "stopTimeUpdates feedLate13 \<noteq> []"
  "map scheduleRelationship (stopTimeUpdates feedLate13) = [None, None]"
  "map stopDelay (stopTimeUpdates feedLate13) = [600, 780]"
  by (simp_all add: feedLate13_def exampleTrip_sel stopDelay_def)

theorem feed_delay_overlay_witness:
  "find (\<lambda>update. TripUpdate.tripId update = GTFSTrip.trip_id trip101) [feedLate13] = Some feedLate13 \<and>
   stopTimeUpdates feedLate13 \<noteq> [] \<and>
   map scheduleRelationship (stopTimeUpdates feedLate13) = [None, None] \<and>
   map stopDelay (stopTimeUpdates feedLate13) = [600, 780] \<and>
   Math_round_div 780 60 = 13 \<and>
   map_of ([] :: (string \<times> TrainDelay) list) (trip_short_name trip101) = None \<and>
   overlay [feedLate13] [] trip101 (Some 1772553600000) (Some 1772556300000) =
     (Some (1772553600000 + 13 * 60 * 1000), Some (1772556300000 + 13 * 60 * 1000)) \<and>
   hasDelay (Some (1772553600000 + 13 * 60 * 1000)) (Some 1772553600000)"
proof -
  have h3: "\<forall>stop \<in> set (stopTimeUpdates feedLate13).
      scheduleRelationship stop \<noteq> Some ''SKIPPED'' \<and> scheduleRelationship stop \<noteq> Some ''CANCELED''"
    by (simp add: feedLate13_def)
  have r: "Math_round_div 780 60 = 13" by (simp add: Math_round_div_def)
  from feed_delay_overlay [OF feedLate13_stops(1) feedLate13_stops(2) h3,
      of "[]" 1772553600000 1772556300000]
  show ?thesis
    by (elim exE conjE) (simp add: exampleTrip_sel ex_feed13 feedLate13_stops exampleFeed_tripId r)
qed

text \<open>
  Claim C3 as stated fails where the feed delay rounds to zero minutes and a scraped entry
  exists: trip T101 has an exact match in the feed, not cancelled, with a largest per-stop
  delay of 20 seconds, that is 0 minutes; train 101 has a scraped delay of 5 minutes. The
  overlay adds 5 minutes to both instants, not the feed's 0 minutes.
\<close>

theorem feed_delay_overlay_counterexample:
  "find (\<lambda>update. TripUpdate.tripId update = GTFSTrip.trip_id trip101) [feedLate20s] = Some feedLate20s \<and>
   map scheduleRelationship (stopTimeUpdates feedLate20s) = [None] \<and>
   map stopDelay (stopTimeUpdates feedLate20s) = [20] \<and>
   Math_round_div 20 60 = 0 \<and>
   map_option info_delay (getTripDelay [feedLate20s] (GTFSTrip.trip_id trip101) None) = Some 0 \<and>
   overlay [feedLate20s] alerts5 trip101 (Some 1772553600000) (Some 1772556300000) =
     (Some (1772553600000 + 5 * 60 * 1000), Some (1772556300000 + 5 * 60 * 1000)) \<and>
   overlay [feedLate20s] alerts5 trip101 (Some 1772553600000) (Some 1772556300000) \<noteq>
     (Some (1772553600000 + 0 * 60 * 1000), Some (1772556300000 + 0 * 60 * 1000))"
  by (simp add: exampleTrip_sel ex_feed20s overlay_def alerts5_def js_seq_def js_add_def
        Math_round_div_def)
     (simp add: feedLate20s_def stopDelay_def)


section \<open>The calendar resolver\<close>

lemma weekday_range: "0 \<le> weekday n \<and> weekday n \<le> 6"
  by (simp add: weekday_def)

lemma dayFlag_spec:
  assumes "0 \<le> dow" and "dow \<le> 6"
  shows "(dayFlag dow cal = Some ''1'') = specFlagSet dow cal"
proof -
  from assms have "dow = 0 \<or> dow = 1 \<or> dow = 2 \<or> dow = 3 \<or> dow = 4 \<or> dow = 5 \<or> dow = 6"
    by arith
  then show ?thesis
    by (elim disjE) (simp_all add: dayFlag_def specFlagSet_def)
qed

lemma digit_char: "k < 10 \<Longrightarrow> isDigit (digitChar k)"
proof -
  assume "k < 10"
  then have "k = 0 \<or> k = 1 \<or> k = 2 \<or> k = 3 \<or> k = 4 \<or> k = 5 \<or> k = 6 \<or> k = 7 \<or> k = 8 \<or> k = 9"
    by arith
  then show ?thesis
    by (elim disjE) (simp_all add: isDigit_def digitChar_def)
qed

lemma decNat_digits: "decNat n \<noteq> [] \<and> (\<forall>c \<in> set (decNat n). isDigit c)"
proof (induction n rule: decNat.induct)
  case (1 n)
  show ?case
  proof (cases "n < 10")
    case True
    then have "decNat n = [digitChar n]" by (simp add: decNat.simps)
    with True show ?thesis by (simp add: digit_char)
  next
    case False
    with 1 have ih: "decNat (n div 10) \<noteq> [] \<and> (\<forall>c \<in> set (decNat (n div 10)). isDigit c)" by simp
    have d: "isDigit (digitChar (n mod 10))" by (rule digit_char) simp
    from False have "decNat n = decNat (n div 10) @ [digitChar (n mod 10)]"
      by (subst decNat.simps) simp
    with ih d show ?thesis by simp
  qed
qed

lemma digit_plain:
  assumes "isDigit c"
  shows "\<not> isWhiteSpace c \<and> c \<noteq> CHR ''-'' \<and> c \<noteq> CHR ''+'' \<and> c \<noteq> CHR ''x'' \<and>
         c \<noteq> CHR ''X'' \<and> decVal c \<noteq> None"
proof -
  from assms have "c = CHR ''0'' \<or> c = CHR ''1'' \<or> c = CHR ''2'' \<or> c = CHR ''3'' \<or> c = CHR ''4'' \<or>
      c = CHR ''5'' \<or> c = CHR ''6'' \<or> c = CHR ''7'' \<or> c = CHR ''8'' \<or> c = CHR ''9''"
    by (simp add: isDigit_def)
  then show ?thesis
    by (elim disjE) (simp_all add: isWhiteSpace_def decVal_def isDigit_def)
qed

lemma parseDigits_digit: "decVal c \<noteq> None \<Longrightarrow> parseDigits 10 decVal (c # rest) \<noteq> None"
  by (simp add: parseDigits_def Let_def)

lemma parseUnsigned_digit:
  assumes "isDigit c" and "\<forall>x \<in> set rest. x \<noteq> CHR ''x'' \<and> x \<noteq> CHR ''X''"
  shows "parseUnsigned (c # rest) \<noteq> None"
proof (cases rest)
  case Nil
  with assms show ?thesis by (simp add: parseUnsigned_def parseDigits_digit digit_plain)
next
  case (Cons c1 r)
  with assms(2) have "c1 \<noteq> CHR ''x'' \<and> c1 \<noteq> CHR ''X''" by simp
  with Cons assms(1) show ?thesis
    by (simp add: parseUnsigned_def parseDigits_digit digit_plain)
qed

lemma numericChar_no_x: "numericChar c \<Longrightarrow> c \<noteq> CHR ''x'' \<and> c \<noteq> CHR ''X''"
  by (auto simp: numericChar_def dest: digit_plain)

lemma numToString_numeric: "\<forall>c \<in> set (numToString (Some n)). numericChar c"
  using decNat_digits by (auto simp: numToString_def numericChar_def)

lemma padStart2_numeric:
  assumes "\<forall>c \<in> set s. numericChar c"
  shows "\<forall>c \<in> set (padStart2 s). numericChar c"
proof -
  have "numericChar CHR ''0''" by (simp add: numericChar_def isDigit_def)
  with assms show ?thesis by (auto simp: padStart2_def)
qed

lemma parseInt_numToString:
  assumes "\<forall>c \<in> set rest. numericChar c"
  shows "parseInt (numToString (Some n) @ rest) \<noteq> None"
proof -
  have body: "parseUnsigned (decNat k @ rest) \<noteq> None" for k
  proof -
    from decNat_digits [of k] obtain c cs where dk: "decNat k = c # cs" and dc: "isDigit c"
      and dcs: "\<forall>x \<in> set cs. isDigit x"
      by (cases "decNat k") auto
    from dcs assms have "\<forall>x \<in> set (cs @ rest). x \<noteq> CHR ''x'' \<and> x \<noteq> CHR ''X''"
      by (auto dest: digit_plain numericChar_no_x)
    from parseUnsigned_digit [OF dc this] dk show ?thesis by simp
  qed
  show ?thesis
  proof (cases "n < 0")
    case True
    then have "parseInt (numToString (Some n) @ rest) =
        map_option uminus (parseUnsigned (decNat (nat (- n)) @ rest))"
      by (simp add: numToString_def parseInt_def isWhiteSpace_def)
    with body show ?thesis by simp
  next
    case False
    from decNat_digits [of "nat n"] obtain c cs where dk: "decNat (nat n) = c # cs" and dc: "isDigit c"
      by (cases "decNat (nat n)") auto
    from False dk dc have "parseInt (numToString (Some n) @ rest) = parseUnsigned (decNat (nat n) @ rest)"
      by (simp add: numToString_def parseInt_def digit_plain)
    with body show ?thesis by simp
  qed
qed

lemma dateStr_parses: "parseInt (dateStr (getPacificTimeInfo env t)) \<noteq> None"
proof -
  obtain y m d where c: "pacificCivil env t = (y, m, d)" by (cases "pacificCivil env t")
  have "\<forall>c \<in> set (padStart2 (numToString (Some m)) @ padStart2 (numToString (Some d))). numericChar c"
    using padStart2_numeric [OF numToString_numeric [of m]] padStart2_numeric [OF numToString_numeric [of d]]
    by auto
  from parseInt_numToString [OF this, of y] c show ?thesis
    by (simp add: getPacificTimeInfo_def localeDateParts_def Let_def)
qed


lemma find_removed:
  "(find (\<lambda>cd. date cd = ds \<and> GTFSCalendarDate.service_id cd = GTFSCalendar.service_id cal \<and>
                 exception_type cd = ''2'') cds \<noteq> None) = specRemoved ds cds cal"
  by (auto simp: specRemoved_def find_None_iff)

lemma range_spec:
  assumes "parseInt (start_date cal) \<noteq> None" and "parseInt (end_date cal) \<noteq> None"
    and "parseInt ds \<noteq> None"
  shows "(js_lt (parseInt ds) (parseInt (start_date cal)) \<or> js_gt (parseInt ds) (parseInt (end_date cal)))
           = (\<not> specInRange ds cal)"
  using assms by (auto simp: js_lt_def js_gt_def specInRange_def)

lemma serviceLoop_spec:
  assumes "\<forall>cal \<in> set cals. parseInt (start_date cal) \<noteq> None \<and> parseInt (end_date cal) \<noteq> None"
    and "parseInt ds \<noteq> None" and "0 \<le> dow" and "dow \<le> 6"
  shows "serviceLoop dow ds cds cals =
           map_option GTFSCalendar.service_id
             (find (\<lambda>cal. specInRange ds cal \<and> specFlagSet dow cal \<and> \<not> specRemoved ds cds cal) cals)"
  using assms(1)
proof (induction cals)
  case Nil
  then show ?case by simp
next
  case (Cons cal rest)
  from Cons.prems have wf: "parseInt (start_date cal) \<noteq> None" "parseInt (end_date cal) \<noteq> None"
    and rest: "\<forall>c \<in> set rest. parseInt (start_date c) \<noteq> None \<and> parseInt (end_date c) \<noteq> None"
    by auto
  note ih = Cons.IH [OF rest]
  note r = range_spec [OF wf assms(2)]
  note f = dayFlag_spec [OF assms(3) assms(4), of cal]
  show ?case
    by (simp only: serviceLoop.simps Let_def r find_removed f find.simps ih)
       (auto simp: ih)
qed

text \<open>
  On calendars whose start and end dates are numbers, \<open>getActiveServiceId\<close> returns what
  the specification's resolver returns for the Pacific date string and day of the week of
  the query date: the service of the first exception of type added on that date when there
  is one; otherwise the service of the first calendar, in dataset order, whose inclusive
  range contains the date, whose flag for the day of the week is set and which has no
  exception of type removed for that date; otherwise nothing.
\<close>

lemma getActiveServiceId_numeric_dates:
  assumes "\<forall>cal \<in> set cals. parseInt (start_date cal) \<noteq> None \<and> parseInt (end_date cal) \<noteq> None"
  shows "getActiveServiceId env t cals cds =
           specActiveService (dayOfWeek (getPacificTimeInfo env t)) (dateStr (getPacificTimeInfo env t)) cals cds"
proof -
  have dow: "0 \<le> dayOfWeek (getPacificTimeInfo env t)" "dayOfWeek (getPacificTimeInfo env t) \<le> 6"
    using weekday_range by (simp_all add: getPacificTimeInfo_def Let_def)
  have p: "(\<lambda>cd. date cd = dateStr (getPacificTimeInfo env t) \<and> exception_type cd = ''1'') =
           (\<lambda>cd. exception_type cd = ''1'' \<and> date cd = dateStr (getPacificTimeInfo env t))"
    by auto
  show ?thesis
    unfolding getActiveServiceId_def specActiveService_def Let_def p
      serviceLoop_spec [OF assms dateStr_parses dow]
    by simp
qed

lemma ex_spec_service:
  "specActiveService 2 ''20260303'' (calendar exampleCache) [] = Some ''WKDY''"
  by code_simp

lemma ex_info: "getPacificTimeInfo exampleEnv 1772550000000 = \<lparr>dayOfWeek = 2, dateStr = ''20260303''\<rparr>"
  by code_simp

lemma ex_calendar_parses:
  "map (\<lambda>cal. (parseInt (start_date cal), parseInt (end_date cal))) (calendar exampleCache) =
     [(Some 20260101, Some 20261231)]"
  by code_simp

lemma ex_spec_removed:
  "specActiveService 2 ''20260303'' (calendar exampleCache) exampleExceptions = None"
  by code_simp

lemma ex_info_0304: "getPacificTimeInfo exampleEnv 1772636400000 = \<lparr>dayOfWeek = 3, dateStr = ''20260304''\<rparr>"
  by code_simp

lemma ex_spec_added:
  "specActiveService 3 ''20260304'' (calendar exampleCache) exampleExceptions = Some ''HOLIDAY''"
  by code_simp

lemma ex_info_evening: "getPacificTimeInfo exampleEnv 1772593200000 = \<lparr>dayOfWeek = 2, dateStr = ''20260303''\<rparr>"
  by code_simp

text \<open>
  The instants 1772550000000 and 1772636400000 are 15:00 UTC of 2026-03-03 and 2026-03-04.
  The instant 1772593200000 is 03:00 UTC of Wednesday 2026-03-04 and 19:00 of Tuesday
  2026-03-03 in Pacific time: the exception that removes the weekday service on 2026-03-03
  applies, the one that adds a service on 2026-03-04 does not.
\<close>

lemma getActiveServiceId_numeric_dates_example:
  "map (\<lambda>cal. (parseInt (start_date cal), parseInt (end_date cal))) (calendar exampleCache) =
     [(Some 20260101, Some 20261231)] \<and>
   getPacificTimeInfo exampleEnv 1772550000000 = \<lparr>dayOfWeek = 2, dateStr = ''20260303''\<rparr> \<and>
   getActiveServiceId exampleEnv 1772550000000 (calendar exampleCache) [] = Some ''WKDY'' \<and>
   specActiveService 2 ''20260303'' (calendar exampleCache) [] = Some ''WKDY'' \<and>
   getActiveServiceId exampleEnv 1772550000000 (calendar exampleCache) exampleExceptions = None \<and>
   getPacificTimeInfo exampleEnv 1772636400000 = \<lparr>dayOfWeek = 3, dateStr = ''20260304''\<rparr> \<and>
   getActiveServiceId exampleEnv 1772636400000 (calendar exampleCache) exampleExceptions = Some ''HOLIDAY'' \<and>
   getPacificTimeInfo exampleEnv 1772593200000 = \<lparr>dayOfWeek = 2, dateStr = ''20260303''\<rparr> \<and>
   getActiveServiceId exampleEnv 1772593200000 (calendar exampleCache) exampleExceptions = None"
proof -
  have wf: "\<forall>cal \<in> set (calendar exampleCache).
      parseInt (start_date cal) \<noteq> None \<and> parseInt (end_date cal) \<noteq> None"
    using ex_calendar_parses by (auto simp: exampleCache_def)
  from getActiveServiceId_numeric_dates [OF wf, of exampleEnv 1772550000000 "[]"]
  have a: "getActiveServiceId exampleEnv 1772550000000 (calendar exampleCache) [] = Some ''WKDY''"
    by (simp add: ex_info ex_spec_service)
  from getActiveServiceId_numeric_dates [OF wf, of exampleEnv 1772550000000 exampleExceptions]
  have b: "getActiveServiceId exampleEnv 1772550000000 (calendar exampleCache) exampleExceptions = None"
    by (simp add: ex_info ex_spec_removed)
  from getActiveServiceId_numeric_dates [OF wf, of exampleEnv 1772636400000 exampleExceptions]
  have c: "getActiveServiceId exampleEnv 1772636400000 (calendar exampleCache) exampleExceptions = Some ''HOLIDAY''"
    by (simp add: ex_info_0304 ex_spec_added)
  from getActiveServiceId_numeric_dates [OF wf, of exampleEnv 1772593200000 exampleExceptions]
  have d: "getActiveServiceId exampleEnv 1772593200000 (calendar exampleCache) exampleExceptions = None"
    by (simp add: ex_info_evening ex_spec_removed)
  from a b c d ex_calendar_parses ex_info ex_info_0304 ex_info_evening ex_spec_service
  show ?thesis by simp
qed

lemma ex_undated_parse:
  "parseInt (start_date undatedCalendar) = None" "parseInt (end_date undatedCalendar) = None"
  by code_simp+

lemma ex_undated_spec:
  "specInRange ''20260303'' undatedCalendar = False"
  "specActiveService 2 ''20260303'' [undatedCalendar] [] = None"
  by code_simp+

lemma ex_undated_service:
  "getActiveServiceId exampleEnv 1772593200000 [undatedCalendar] [] = Some ''WKDY''"
  by code_simp

text \<open>
  Claim C2 fails on a calendar whose start or end date is not a number. \<open>parseCSV\<close> fills a
  missing column with the empty string (\<open>values[index] || ''\<close>), \<open>parseInt\<close> of it is
  \<open>NaN\<close>, and both comparisons of the range test at line 145,
  \<open>currentDate < startDate || currentDate > endDate\<close>, are false on \<open>NaN\<close>: the calendar is
  not skipped. At the instant 1772593200000 (Tuesday 2026-03-03, 19:00 Pacific time) the
  calendar \<open>undatedCalendar\<close>, with weekday flags and empty dates, is returned as the active
  service, while no range of it contains the date and the specification's resolver returns
  nothing.
\<close>

theorem undated_calendar_is_active:
  "parseInt (start_date undatedCalendar) = None \<and>
   parseInt (end_date undatedCalendar) = None \<and>
   getPacificTimeInfo exampleEnv 1772593200000 = \<lparr>dayOfWeek = 2, dateStr = ''20260303''\<rparr> \<and>
   \<not> specInRange ''20260303'' undatedCalendar \<and>
   specActiveService 2 ''20260303'' [undatedCalendar] [] = None \<and>
   getActiveServiceId exampleEnv 1772593200000 [undatedCalendar] [] = Some ''WKDY''"
  by (simp add: ex_undated_parse ex_undated_spec ex_undated_service ex_info_evening)

section \<open>The trip time materializer\<close>

lemma twoDigits_secondsMs: "twoDigits ss = Some se \<Longrightarrow> secondsMs ss = Some (se, 0)"
  by (auto simp: twoDigits_def secondsMs_def split: list.splits if_splits)

text \<open>
  Claim C1, as amended. A stop time whose hour \<open>h\<close> is 24 or more, with a two-digit minute
  and second up to 59, materializes on the service date \<open>D\<close> to the instant at
  \<open>(h mod 24):MM:SS\<close> on the civil date \<open>h div 24\<close> days after \<open>D\<close> (years of four
  digits), composed with the offset found for the service date \<open>D\<close> itself, which is the
  one offset that the loop uses for the departure and for the arrival. Where the later date
  has the same offset as the service date, this is the instant of the specification.
\<close>

theorem materialize_service_date_offset:
  assumes "parseTime s = Inr (Some h, mm, ss)" and "24 \<le> h"
    and "twoDigits mm = Some mi" and "mi \<le> 59"
    and "twoDigits ss = Some se" and "se \<le> 59"
    and "serviceDate = (y, m, d)" and "100 \<le> y"
    and "civil_from_days (days_from_civil serviceDate + h div 24) = (y', m', d')"
    and "1000 \<le> y'" and "y' \<le> 9999"
  shows "materialize env serviceDate (tzOffset env serviceDate) s =
           Inr (Some (days_from_civil (y', m', d') * msPerDay + (h mod 24) * 3600000 +
                      mi * 60000 + se * 1000 - tzOffset env serviceDate)) \<and>
         (tzOffset env (y', m', d') = tzOffset env serviceDate \<longrightarrow>
            materialize env serviceDate (tzOffset env serviceDate) s =
              Inr (Some (specMaterialize env serviceDate h mi se)))"
proof -
  from assms(2) have h0: "0 \<le> h" by simp
  then have rem: "js_rem h 24 = h mod 24" by (simp add: js_rem_def)
  have range: "0 \<le> h mod 24 \<and> h mod 24 \<le> 23" by presburger
  from assms(7,8,9) have shift: "shiftDate serviceDate (Some (h div 24)) = Some (y', m', d')"
    by (simp add: shiftDate_def)
  have main: "materialize env serviceDate (tzOffset env serviceDate) s =
           Inr (Some (days_from_civil (y', m', d') * msPerDay + (h mod 24) * 3600000 +
                      mi * 60000 + se * 1000 - tzOffset env serviceDate))"
    using assms(1,3,4,6,10,11) range
    by (simp add: materialize_def Let_def rem shift newDate_def twoDigits_secondsMs [OF assms(5)])
  moreover have "specMaterialize env serviceDate h mi se =
      days_from_civil (y', m', d') * msPerDay + (h mod 24) * 3600000 + mi * 60000 + se * 1000
        - tzOffset env (y', m', d')"
    using assms(9) by (simp add: specMaterialize_def Let_def)
  ultimately show ?thesis by simp
qed

lemma ex_parse_2530: "parseTime ''25:30:00'' = Inr (Some 25, ''30'', ''00'')"
  by code_simp

lemma ex_twoDigits: "twoDigits ''30'' = Some 30" "twoDigits ''00'' = Some 0"
  by code_simp+

lemma ex_shift_0303: "civil_from_days (days_from_civil (2026, 3, 3) + 25 div 24) = (2026, 3, 4)"
  by code_simp

lemma ex_days_0304: "days_from_civil (2026, 3, 4) = 20516"
  by code_simp

lemma ex_tz_0304: "tzOffset exampleEnv (2026, 3, 4) = - 28800000"
  by code_simp

theorem materialize_service_date_offset_witness:
  "parseTime ''25:30:00'' = Inr (Some 25, ''30'', ''00'') \<and> (24::int) \<le> 25 \<and>
   twoDigits ''30'' = Some 30 \<and> twoDigits ''00'' = Some 0 \<and>
   civil_from_days (days_from_civil (2026, 3, 3) + 25 div 24) = (2026, 3, 4) \<and>
   tzOffset exampleEnv (2026, 3, 3) = - 28800000 \<and>
   tzOffset exampleEnv (2026, 3, 4) = - 28800000 \<and>
   materialize exampleEnv (2026, 3, 3) (tzOffset exampleEnv (2026, 3, 3)) ''25:30:00'' =
     Inr (Some (20516 * 86400000 + 1 * 3600000 + 30 * 60000 + 0 * 1000 + 28800000)) \<and>
   materialize exampleEnv (2026, 3, 3) (tzOffset exampleEnv (2026, 3, 3)) ''25:30:00'' =
     Inr (Some (specMaterialize exampleEnv (2026, 3, 3) 25 30 0))"
proof -
  have h: "(24::int) \<le> 25" "(30::int) \<le> 59" "(0::int) \<le> 59" "(100::int) \<le> 2026"
    "(1000::int) \<le> 2026" "(2026::int) \<le> 9999" by simp_all
  note inst = materialize_service_date_offset [of "''25:30:00''" 25 "''30''" "''00''" 30 0
      "(2026, 3, 3)" 2026 3 3 2026 3 4 exampleEnv,
      OF ex_parse_2530 h(1) ex_twoDigits(1) h(2) ex_twoDigits(2) h(3) refl h(4) ex_shift_0303 h(5) h(6)]
  from inst [THEN conjunct1]
  have a: "materialize exampleEnv (2026, 3, 3) (tzOffset exampleEnv (2026, 3, 3)) ''25:30:00'' =
     Inr (Some (20516 * 86400000 + 1 * 3600000 + 30 * 60000 + 0 * 1000 + 28800000))"
    by (simp add: ex_days_0304 ex_tz msPerDay_def)
  have eq: "tzOffset exampleEnv (2026, 3, 4) = tzOffset exampleEnv (2026, 3, 3)"
    by (simp add: ex_tz ex_tz_0304)
  from inst [THEN conjunct2] eq
  have b: "materialize exampleEnv (2026, 3, 3) (tzOffset exampleEnv (2026, 3, 3)) ''25:30:00'' =
     Inr (Some (specMaterialize exampleEnv (2026, 3, 3) 25 30 0))"
    by (rule mp)
  have c: "tzOffset exampleEnv (2026, 3, 3) = - 28800000 \<and> tzOffset exampleEnv (2026, 3, 4) = - 28800000"
    by (simp add: ex_tz ex_tz_0304)
  from ex_parse_2530 h(1) ex_twoDigits ex_shift_0303 c a b show ?thesis
    by (intro conjI) (elim conjE, assumption)+
qed

lemma ex_mat_eve:
  "materialize exampleEnv (2026, 3, 7) (- 28800000) ''27:30:00'' = Inr (Some 1772969400000)"
  by code_simp

lemma ex_tz_eve: "tzOffset exampleEnv (2026, 3, 7) = - 28800000" "tzOffset exampleEnv (2026, 3, 8) = - 25200000"
  by code_simp+

lemma ex_spec_eve: "specMaterialize exampleEnv (2026, 3, 7) 27 30 0 = 1772965800000"
  by code_simp

lemma ex_civil_eve: "pacificCivil exampleEnv 1772942400000 = (2026, 3, 7)"
  by code_simp

lemma ex_shift_eve: "civil_from_days (days_from_civil (2026, 3, 7) + 27 div 24) = (2026, 3, 8)"
  by code_simp

text \<open>
  Claim C1 as stated fails on the eve of a change of offset. Daylight time begins on Sunday
  2026-03-08. On the service date 2026-03-07 (the Pacific date of the instant 1772942400000)
  the stop time 27:30:00 is 03:30 on 2026-03-08, a date whose offset is -07:00; the code
  composes it with -08:00, the offset of the service date, and gets 11:30 UTC where the
  specification's materializer gets 10:30 UTC.
\<close>

theorem materialize_later_date_offset_counterexample:
  "pacificCivil exampleEnv 1772942400000 = (2026, 3, 7) \<and>
   civil_from_days (days_from_civil (2026, 3, 7) + 27 div 24) = (2026, 3, 8) \<and>
   tzOffset exampleEnv (2026, 3, 7) = - 28800000 \<and>
   tzOffset exampleEnv (2026, 3, 8) = - 25200000 \<and>
   materialize exampleEnv (pacificCivil exampleEnv 1772942400000) (tzOffset exampleEnv (pacificCivil exampleEnv 1772942400000))
     ''27:30:00'' = Inr (Some 1772969400000) \<and>
   specMaterialize exampleEnv (2026, 3, 7) 27 30 0 = 1772965800000 \<and>
   materialize exampleEnv (pacificCivil exampleEnv 1772942400000) (tzOffset exampleEnv (pacificCivil exampleEnv 1772942400000))
     ''27:30:00'' \<noteq> Inr (Some (specMaterialize exampleEnv (pacificCivil exampleEnv 1772942400000) 27 30 0))"
  using ex_shift_eve by (simp add: ex_civil_eve ex_tz_eve ex_mat_eve ex_spec_eve)


section \<open>An exception inside the loop\<close>

text \<open>
  An exception inside the loop ends in the empty list: on the data set whose trip has the
  departure time 08:00, without seconds, \<open>padStart\<close> is called on a missing piece.
\<close>

lemma cache_update_newDate:
  "newDate (env\<lparr>gtfsCache := c\<rparr>) ymd h mm ss off = newDate env ymd h mm ss off"
  by (simp add: newDate_def cong: option.case_cong prod.case_cong if_cong)

lemma cache_update:
  "pacificCivil (env\<lparr>gtfsCache := c\<rparr>) t = pacificCivil env t"
  "getActiveServiceId (env\<lparr>gtfsCache := c\<rparr>) t cals cds = getActiveServiceId env t cals cds"
  "findGTFSStopId (env\<lparr>gtfsCache := c\<rparr>) code' dir = findGTFSStopId env code' dir"
  "tzOffset (env\<lparr>gtfsCache := c\<rparr>) base = tzOffset env base"
  "materialize (env\<lparr>gtfsCache := c\<rparr>) base off s = materialize env base off s"
  by (simp_all add: pacificCivil_def getActiveServiceId_def getPacificTimeInfo_def
        localeDateParts_def findGTFSStopId_def tzOffset_def materialize_def cache_update_newDate
        cong: option.case_cong prod.case_cong sum.case_cong if_cong)

lemma brokenEnv_sel:
  "fetchOutcome brokenEnv = FetchReturns True"
  "gtfsCache brokenEnv = brokenCache"
  "stations brokenEnv = exampleStations"
  "getStationById brokenEnv = (\<lambda>i. find (\<lambda>s. id' s = i) exampleStations)"
  "trips brokenCache = [trip101]"
  "calendar brokenCache = calendar exampleCache"
  "calendarDates brokenCache = []"
  by (simp_all add: brokenEnv_def brokenCache_def exampleEnv_def)

lemma ex_parse_broken: "parseTime ''08:00'' = Inl TypeError"
  by code_simp

lemma ex_broken_process:
  "processTrip brokenEnv 1772550000000 [] [] ''1'' False ''70012'' ''70262'' first trip101 = Inl TypeError"
  by (simp add: processTrip_def brokenEnv_sel brokenCache_def exampleTrip_sel Let_def
        materialize_def ex_parse_broken)

lemma ex_broken_run:
  "getScheduledTrainsTry brokenEnv ''sf'' ''sj'' 1772550000000 [] [] = Inr [] \<and>
   getScheduledTrains brokenEnv ''sf'' ''sj'' (Some 1772550000000) [] [] = Inr []"
  by (simp add: getScheduledTrains_def getScheduledTrainsTry_def brokenEnv_sel
        ex_service [folded cache_update(2) [where env = exampleEnv and c = brokenCache], folded brokenEnv_def]
        ex_stops [folded cache_update(3) [where env = exampleEnv and c = brokenCache], folded brokenEnv_def]
        exampleStations_def findIndex_def Let_def ex_broken_process exampleTrip_service)

text \<open>
  So does the \<open>RangeError\<close> of line 710. On the data set whose first trip has the departure
  time xx:00:00 at the origin, the departure is an Invalid Date; at 09:00 Pacific time of
  2026-03-03 (the instant 1772557200000) the arrival of that trip, 08:45, is past. While
  \<open>trains\<close> is empty the iteration raises at line 710, before the inclusion test; with a
  train already in \<open>trains\<close> it would end at the \<open>continue\<close> of line 751. The trip is the
  first of the loop, so the run ends in the catch of line 796 with the empty list, though
  the second trip, at 03:30 of the next day, is still to come.
\<close>

lemma garbledEnv_sel:
  "fetchOutcome garbledEnv = FetchReturns True"
  "gtfsCache garbledEnv = garbledCache"
  "stations garbledEnv = exampleStations"
  "getStationById garbledEnv = (\<lambda>i. find (\<lambda>s. id' s = i) exampleStations)"
  "trips garbledCache = [trip101, trip199]"
  "calendar garbledCache = calendar exampleCache"
  "calendarDates garbledCache = []"
  by (simp_all add: garbledEnv_def garbledCache_def exampleEnv_def)

lemma ex3_civil: "pacificCivil exampleEnv 1772557200000 = (2026, 3, 3)"
  by code_simp

lemma ex3_service:
  "getActiveServiceId exampleEnv 1772557200000 (calendar exampleCache) [] = Some ''WKDY''"
  by code_simp

lemma ex_mat_garbled: "materialize exampleEnv (2026, 3, 3) (- 28800000) ''xx:00:00'' = Inr None"
  by code_simp

lemma ex_garbled_find:
  "find (\<lambda>st. GTFSStopTime.trip_id st = ''T101'' \<and> stop_id st = ''70012'') (stopTimes garbledCache) =
     Some \<lparr>GTFSStopTime.trip_id = ''T101'', arrival_time = ''xx:00:00'', departure_time = ''xx:00:00'',
           stop_id = ''70012'', stop_sequence = 1\<rparr>"
  "find (\<lambda>st. GTFSStopTime.trip_id st = ''T101'' \<and> stop_id st = ''70262'') (stopTimes garbledCache) =
     Some \<lparr>GTFSStopTime.trip_id = ''T101'', arrival_time = ''08:45:00'', departure_time = ''08:45:00'',
           stop_id = ''70262'', stop_sequence = 2\<rparr>"
  by (simp_all add: garbledCache_def)

lemma ex_garbled_process:
  "processTrip garbledEnv 1772557200000 [] [] ''1'' False ''70012'' ''70262'' True trip101 = Inl RangeError"
  "processTrip garbledEnv 1772557200000 [] [] ''1'' False ''70012'' ''70262'' False trip101 = Inr None"
  by (simp_all add: processTrip_def garbledEnv_sel ex_garbled_find exampleTrip_sel Let_def
        ex3_civil [folded cache_update(1) [where env = exampleEnv and c = garbledCache], folded garbledEnv_def]
        ex_tz [folded cache_update(4) [where env = exampleEnv and c = garbledCache], folded garbledEnv_def]
        ex_mat_garbled [folded cache_update(5) [where env = exampleEnv and c = garbledCache], folded garbledEnv_def]
        ex_mat_0845 [folded cache_update(5) [where env = exampleEnv and c = garbledCache], folded garbledEnv_def]
        overlay_def getTripDelay_def included_def js_lt_def)

lemma ex_garbled_run:
  "tripLoop garbledEnv 1772557200000 [] [] ''1'' False ''70012'' ''70262'' [trip101, trip199] [] =
     Inl RangeError \<and>
   getScheduledTrains garbledEnv ''sf'' ''sj'' (Some 1772557200000) [] [] = Inr []"
  by (simp add: getScheduledTrains_def getScheduledTrainsTry_def garbledEnv_sel
        ex3_service [folded cache_update(2) [where env = exampleEnv and c = garbledCache], folded garbledEnv_def]
        ex_stops [folded cache_update(3) [where env = exampleEnv and c = garbledCache], folded garbledEnv_def]
        exampleStations_def findIndex_def Let_def ex_garbled_process exampleTrip_service)

end
